theory Spec2Isabelle
  imports Main "HOL-Library.Word"
begin

unbundle bit_operations_syntax

section \<open>JavaScript numbers and strings\<close>

text \<open>
  The compiler of \<^verbatim>\<open>types.ts\<close> works on JavaScript numbers that are all integers;
  they are modelled as \<^typ>\<open>int\<close>. The bitwise operators first cut their operands down to
  32 bits (\<^verbatim>\<open>ToInt32\<close>), and a shift takes its count modulo 32. An \<^verbatim>\<open>Int32Array\<close>
  cell keeps \<^verbatim>\<open>ToInt32\<close> of what is stored in it.
\<close>

definition toInt32 :: "int \<Rightarrow> int" where
  "toInt32 x = signed_take_bit 31 x"

definition js_or :: "int \<Rightarrow> int \<Rightarrow> int" where
  "js_or a b = toInt32 a OR toInt32 b"

definition js_and :: "int \<Rightarrow> int \<Rightarrow> int" where
  "js_and a b = toInt32 a AND toInt32 b"

definition js_shl :: "int \<Rightarrow> nat \<Rightarrow> int" where
  "js_shl a n = toInt32 (push_bit (n mod 32) (toInt32 a))"

definition js_shr :: "int \<Rightarrow> nat \<Rightarrow> int" where
  "js_shr a n = drop_bit (n mod 32) (toInt32 a)"

definition js_ushr :: "int \<Rightarrow> nat \<Rightarrow> int" where
  "js_ushr a n = drop_bit (n mod 32) (take_bit 32 a)"

text \<open>Decimal text of a number, as \<^verbatim>\<open>x + ''\<close> and template literals give it.\<close>

function show_nat :: "nat \<Rightarrow> string" where
  "show_nat n = (if n < 10 then [''0123456789'' ! n]
                 else show_nat (n div 10) @ [''0123456789'' ! (n mod 10)])"
  by pat_completeness auto
termination
  by (relation "measure id") auto

declare show_nat.simps [simp del]

definition show_int :: "int \<Rightarrow> string" where
  "show_int x = (if x < 0 then CHR ''-'' # show_nat (nat (- x)) else show_nat (nat x))"

text \<open>An array inside a template literal is joined with commas.\<close>

fun joinComma :: "string list \<Rightarrow> string" where
  "joinComma [] = []"
| "joinComma [x] = x"
| "joinComma (x # y # ys) = x @ CHR '','' # joinComma (y # ys)"

section \<open>defs.ts: opcodes, block frames, the metadata table\<close>

text \<open>
  The members of \<^verbatim>\<open>enum Op\<close> that the compiler names. The eight saturating
  truncations and \<^verbatim>\<open>memory_copy\<close>, \<^verbatim>\<open>memory_fill\<close> follow the prefix byte
  \<^verbatim>\<open>0xFC\<close> and share their numbers with \<^verbatim>\<open>unreachable\<close> .. \<^verbatim>\<open>end\<close>.
\<close>

abbreviation (input) Op_i64_trunc_sat_f64_u :: nat where "Op_i64_trunc_sat_f64_u \<equiv> 0x07"
abbreviation (input) Op_memory_copy :: nat where "Op_memory_copy \<equiv> 0x0A"
abbreviation (input) Op_memory_fill :: nat where "Op_memory_fill \<equiv> 0x0B"
abbreviation (input) Op_unreachable :: nat where "Op_unreachable \<equiv> 0x00"
abbreviation (input) Op_nop :: nat where "Op_nop \<equiv> 0x01"
abbreviation (input) Op_block :: nat where "Op_block \<equiv> 0x02"
abbreviation (input) Op_loop :: nat where "Op_loop \<equiv> 0x03"
abbreviation (input) Op_if :: nat where "Op_if \<equiv> 0x04"
abbreviation (input) Op_else :: nat where "Op_else \<equiv> 0x05"
abbreviation (input) Op_end :: nat where "Op_end \<equiv> 0x0B"
abbreviation (input) Op_br :: nat where "Op_br \<equiv> 0x0C"
abbreviation (input) Op_br_if :: nat where "Op_br_if \<equiv> 0x0D"
abbreviation (input) Op_br_table :: nat where "Op_br_table \<equiv> 0x0E"
abbreviation (input) Op_return :: nat where "Op_return \<equiv> 0x0F"
abbreviation (input) Op_call :: nat where "Op_call \<equiv> 0x10"
abbreviation (input) Op_call_indirect :: nat where "Op_call_indirect \<equiv> 0x11"
abbreviation (input) Op_drop :: nat where "Op_drop \<equiv> 0x1A"
abbreviation (input) Op_select :: nat where "Op_select \<equiv> 0x1B"
abbreviation (input) Op_local_get :: nat where "Op_local_get \<equiv> 0x20"
abbreviation (input) Op_local_set :: nat where "Op_local_set \<equiv> 0x21"
abbreviation (input) Op_local_tee :: nat where "Op_local_tee \<equiv> 0x22"
abbreviation (input) Op_global_get :: nat where "Op_global_get \<equiv> 0x23"
abbreviation (input) Op_global_set :: nat where "Op_global_set \<equiv> 0x24"
abbreviation (input) Op_i32_load :: nat where "Op_i32_load \<equiv> 0x28"
abbreviation (input) Op_i64_load32_u :: nat where "Op_i64_load32_u \<equiv> 0x35"
abbreviation (input) Op_i32_store :: nat where "Op_i32_store \<equiv> 0x36"
abbreviation (input) Op_i64_store32 :: nat where "Op_i64_store32 \<equiv> 0x3E"
abbreviation (input) Op_memory_size :: nat where "Op_memory_size \<equiv> 0x3F"
abbreviation (input) Op_memory_grow :: nat where "Op_memory_grow \<equiv> 0x40"
abbreviation (input) Op_i32_const :: nat where "Op_i32_const \<equiv> 0x41"
abbreviation (input) Op_i64_const :: nat where "Op_i64_const \<equiv> 0x42"
abbreviation (input) Op_f32_const :: nat where "Op_f32_const \<equiv> 0x43"
abbreviation (input) Op_f64_const :: nat where "Op_f64_const \<equiv> 0x44"
abbreviation (input) Op_i64_and :: nat where "Op_i64_and \<equiv> 0x83"
abbreviation (input) Op_i64_shl :: nat where "Op_i64_shl \<equiv> 0x86"
abbreviation (input) Op_i64_shr_s :: nat where "Op_i64_shr_s \<equiv> 0x87"
abbreviation (input) Op_i64_shr_u :: nat where "Op_i64_shr_u \<equiv> 0x88"
abbreviation (input) Op_i64_rotl :: nat where "Op_i64_rotl \<equiv> 0x89"
abbreviation (input) Op_i64_rotr :: nat where "Op_i64_rotr \<equiv> 0x8A"
abbreviation (input) Op_BOOL :: nat where "Op_BOOL \<equiv> 0xF0"
abbreviation (input) Op_BOOL_NOT :: nat where "Op_BOOL_NOT \<equiv> 0xF1"
abbreviation (input) Op_BOOL_TO_INT :: nat where "Op_BOOL_TO_INT \<equiv> 0xF2"
abbreviation (input) Op_TO_U32 :: nat where "Op_TO_U32 \<equiv> 0xF3"
abbreviation (input) Op_TO_S64 :: nat where "Op_TO_S64 \<equiv> 0xF4"

datatype BlockKind = Normal | Loop | IfElse

text \<open>
  \<^verbatim>\<open>interface Block\<close>; the fields are the source's without the trailing underscore
  that its minifier convention adds.
\<close>

record Block =
  argCount :: nat
  isDead :: bool
  kind :: BlockKind
  labelBreak :: int
  labelContinueOrElse :: int
  parentStackTop :: int
  returnCount :: nat

text \<open>\<^verbatim>\<open>enum MetaFlag\<close>.\<close>

abbreviation (input) PopMask :: nat where "PopMask \<equiv> 3"
abbreviation (input) Push :: nat where "Push \<equiv> 4"
abbreviation (input) Simple :: nat where "Simple \<equiv> 8"
abbreviation (input) HasIndex :: nat where "HasIndex \<equiv> 16"
abbreviation (input) HasAlign :: nat where "HasAlign \<equiv> 32"
abbreviation (input) BoolToInt :: nat where "BoolToInt \<equiv> 64"
abbreviation (input) ToU32 :: nat where "ToU32 \<equiv> 128"
abbreviation (input) ToS64 :: nat where "ToS64 \<equiv> 256"
abbreviation (input) Omit :: nat where "Omit \<equiv> 512"
abbreviation (input) And63 :: nat where "And63 \<equiv> 1024"

text \<open>A flag word has a flag when the bitwise AND of the two is truthy (not zero).\<close>

definition hasFlag :: "nat \<Rightarrow> nat \<Rightarrow> bool" where
  "hasFlag flags f = (flags AND f \<noteq> 0)"

text \<open>
  \<^verbatim>\<open>metaTable\<close>: a \<^verbatim>\<open>Uint16Array(256)\<close>, zero where the source assigns nothing.
  Each line below is one run of equal assignments of the source, the opcodes of the run
  on the left.
\<close>

definition metaEntries :: "(nat list \<times> nat) list" where
  "metaEntries =
   [([0x01], Omit OR Simple),
    ([0x1A], 1 OR Omit OR Simple),
    ([0x20], Push OR HasIndex OR Simple),
    ([0x21], 1 OR HasIndex OR Simple),
    ([0x22], 1 OR Push OR HasIndex OR Simple),
    ([0x23], Push OR HasIndex OR Simple),
    ([0x24], 1 OR HasIndex OR Simple),
    ([0x28 ..< 0x36], 1 OR Push OR HasAlign OR HasIndex OR Simple),
    ([0x36 ..< 0x3F], 2 OR HasAlign OR HasIndex OR Simple),
    ([0x3F], Push OR HasIndex OR Simple),
    ([0x40], 1 OR Push OR HasIndex OR Simple),
    ([0x45], 1 OR Push OR Simple),
    ([0x46, 0x47, 0x48], 2 OR Push OR Simple OR BoolToInt),
    ([0x49], 2 OR Push OR Simple OR BoolToInt OR ToU32),
    ([0x4A], 2 OR Push OR Simple OR BoolToInt),
    ([0x4B], 2 OR Push OR Simple OR BoolToInt OR ToU32),
    ([0x4C], 2 OR Push OR Simple OR BoolToInt),
    ([0x4D], 2 OR Push OR Simple OR BoolToInt OR ToU32),
    ([0x4E], 2 OR Push OR Simple OR BoolToInt),
    ([0x4F], 2 OR Push OR Simple OR BoolToInt OR ToU32),
    ([0x50], 1 OR Push OR Simple),
    ([0x51, 0x52], 2 OR Push OR Simple OR BoolToInt),
    ([0x53], 2 OR Push OR Simple OR BoolToInt OR ToS64),
    ([0x54], 2 OR Push OR Simple OR BoolToInt),
    ([0x55], 2 OR Push OR Simple OR BoolToInt OR ToS64),
    ([0x56], 2 OR Push OR Simple OR BoolToInt),
    ([0x57], 2 OR Push OR Simple OR BoolToInt OR ToS64),
    ([0x58], 2 OR Push OR Simple OR BoolToInt),
    ([0x59], 2 OR Push OR Simple OR BoolToInt OR ToS64),
    ([0x5A], 2 OR Push OR Simple OR BoolToInt),
    ([0x5B ..< 0x67], 2 OR Push OR Simple OR BoolToInt),
    ([0x67, 0x68, 0x69], 1 OR Push OR Simple),
    ([0x6A, 0x6B, 0x6C, 0x6D], 2 OR Push OR Simple),
    ([0x6E], 2 OR Push OR Simple OR ToU32),
    ([0x6F], 2 OR Push OR Simple),
    ([0x70], 2 OR Push OR Simple OR ToU32),
    ([0x71 ..< 0x79], 2 OR Push OR Simple),
    ([0x79, 0x7A, 0x7B], 1 OR Push OR Simple),
    ([0x7C, 0x7D, 0x7E], 2 OR Push OR Simple),
    ([0x7F], 2 OR Push OR Simple OR ToS64),
    ([0x80], 2 OR Push OR Simple),
    ([0x81], 2 OR Push OR Simple OR ToS64),
    ([0x82, 0x83, 0x84, 0x85], 2 OR Push OR Simple),
    ([0x86 ..< 0x8B], 2 OR Push OR Simple OR And63),
    ([0x8B ..< 0x92], 1 OR Push OR Simple),
    ([0x92 ..< 0x99], 2 OR Push OR Simple),
    ([0x99 ..< 0xA0], 1 OR Push OR Simple),
    ([0xA0 ..< 0xA7], 2 OR Push OR Simple),
    ([0xA7 ..< 0xB2], 1 OR Push OR Simple),
    ([0xB2], 1 OR Push OR Omit OR Simple),
    ([0xB3], 1 OR Push OR Omit OR Simple OR ToU32),
    ([0xB4], 1 OR Push OR Simple OR ToS64),
    ([0xB5], 1 OR Push OR Simple),
    ([0xB6, 0xB7], 1 OR Push OR Omit OR Simple),
    ([0xB8], 1 OR Push OR Omit OR Simple OR ToU32),
    ([0xB9], 1 OR Push OR Simple OR ToS64),
    ([0xBA], 1 OR Push OR Simple),
    ([0xBB], 1 OR Push OR Omit OR Simple),
    ([0xBC ..< 0xC0], 1 OR Push OR Simple),
    ([0xC0 ..< 0xC5], 1 OR Push OR Simple)]"

definition metaTable :: "nat \<Rightarrow> nat" where
  "metaTable op = (case find (\<lambda>(ops, flags). op \<in> set ops) metaEntries of
                     Some (ops, flags) \<Rightarrow> flags | None \<Rightarrow> 0)"

text \<open>\<^verbatim>\<open>enum Pack\<close>: the layout of a node's header word.\<close>

abbreviation (input) OpMask :: int where "OpMask \<equiv> 255"
abbreviation (input) ChildCountShift :: nat where "ChildCountShift \<equiv> 8"
abbreviation (input) ChildCountMask :: int where "ChildCountMask \<equiv> 0xFFFF"
abbreviation (input) OutSlotShift :: nat where "OutSlotShift \<equiv> 24"

section \<open>The inputs of compileCode\<close>

text \<open>
  \<^verbatim>\<open>Type\<close> comes from \<^verbatim>\<open>parse.ts\<close>, which is not among the sources; the compiler only
  asks whether a local's type is \<^verbatim>\<open>Type.I64\<close>.
\<close>

datatype Type = I32 | I64 | F32 | F64

type_synonym FuncType = "Type list \<times> Type list"

text \<open>
  \<^verbatim>\<open>ContextField\<close> (from \<^verbatim>\<open>instantiate.ts\<close>, not among the sources) names the
  fields of the instance context; the names are parameters here.
\<close>

record ContextField =
  cfInt8Array :: string
  cfUint8Array :: string
  cfDataView :: string
  cfPageCount :: string
  cfPageGrow :: string

text \<open>
  \<^verbatim>\<open>WASM\<close>: the parsed module. \<^verbatim>\<open>dataView_\<close> is read only to print a float
  constant (\<^verbatim>\<open>dataView.getFloat32(offset, true) + ''\<close>); the two fields
  \<open>getFloat32\<close> and \<open>getFloat64\<close> stand for that text, \<open>None\<close> where the
  offset is out of bounds and the read throws.
\<close>

record WASM =
  bytes :: "nat list"
  getFloat32 :: "int \<Rightarrow> string option"
  getFloat64 :: "int \<Rightarrow> string option"
  codeSection :: "((nat \<times> Type) list \<times> nat \<times> nat) list"
  functionSection :: "nat list"
  nameSection :: "nat \<Rightarrow> string option"
  typeSection :: "FuncType list"

text \<open>
  \<^verbatim>\<open>optimizeNode\<close> is built by \<^verbatim>\<open>compileOptimizations()\<close> of \<^verbatim>\<open>optimize.ts\<close>,
  which is not among the sources. It receives the AST store, the constants, the allocator
  \<^verbatim>\<open>allocateNode\<close> (which writes a header at \<^verbatim>\<open>astNextPtr\<close> and bumps it) and a
  node pointer, and returns a node pointer. It is a parameter of the model: a function from
  the store, the constants, the bump pointer and the node to their new values and the
  returned pointer.
\<close>

type_synonym optimizer =
  "(nat \<Rightarrow> int) \<Rightarrow> int list \<Rightarrow> nat \<Rightarrow> nat \<Rightarrow> (nat \<Rightarrow> int) \<times> int list \<times> nat \<times> nat"

text \<open>The optimizer with no rewrite rule: every node is kept as it is.\<close>

definition keepNode :: optimizer where
  "keepNode a cs n ptr = (a, cs, n, ptr)"

text \<open>
  What stays fixed while one function is compiled: the arguments of \<^verbatim>\<open>compileCode\<close>
  that the compiler reads, the local \<^verbatim>\<open>names\<close> and \<^verbatim>\<open>codeEnd\<close>, the optimizer, and
  \<open>callDepth\<close>, the number of nested calls that the engine's call stack holds: the
  two recursive functions of the compiler (\<^verbatim>\<open>optimizeChildrenAndSelf\<close>,
  \<^verbatim>\<open>emitUnwrapped\<close>) raise a \<^verbatim>\<open>RangeError\<close> beyond it.
\<close>

record cenv =
  funcTypes :: "FuncType list"
  wasm :: WASM
  ctxField :: ContextField
  names :: "string list"
  codeEnd :: nat
  optimizeNode :: optimizer
  callDepth :: nat

text \<open>What a compilation can throw.\<close>

datatype error =
    UnsupportedInstruction nat
  | UnsupportedInstructionFC nat
  | UnsupportedTableIndex int
  | UnsupportedMemoryIndex
  | DeepStack
  | InternalError
  | TypeError
  | RangeError

section \<open>The state of one compilation\<close>

text \<open>
  The variables of \<^verbatim>\<open>compileCode\<close> that change. \<open>ast\<close> is the
  \<^verbatim>\<open>Int32Array\<close> singleton as a function of the index. A store past its
  \<^verbatim>\<open>1 << 16\<close> words is dropped, as in the source (\<open>astStore\<close> below); a read past
  them, \<^verbatim>\<open>undefined\<close> in the source, reads the function, so the model follows the source
  for the basic blocks whose nodes fit the store. \<open>astPtrs\<close> holds \<open>None\<close> for
  \<^verbatim>\<open>null\<close>; \<open>fbI\<close> is the variable \<^verbatim>\<open>i\<close> of \<^verbatim>\<open>finalizeBasicBlock\<close>, which its
  inner function shares.
\<close>

record cstate =
  bytesPtr :: nat
  ast :: "nat \<Rightarrow> int"
  astPtrs :: "nat option list"
  astNextPtr :: nat
  constants :: "int list"
  stackLimit :: int
  decls :: "string list"
  blocks :: "Block list"
  stackTop :: int
  nextLabel :: int
  body :: string
  fbI :: int

type_synonym 'a result = "error + 'a \<times> cstate"

text \<open>An element of an array, \<open>None\<close> for \<^verbatim>\<open>undefined\<close>.\<close>

definition at :: "'a list \<Rightarrow> int \<Rightarrow> 'a option" where
  "at xs i = (if 0 \<le> i \<and> i < int (length xs) then Some (xs ! nat i) else None)"

subsection \<open>LEB128 readers\<close>

text \<open>
  The \<^verbatim>\<open>do .. while (byte & 0x80)\<close> loops, by recursion on the bytes from
  \<^verbatim>\<open>bytesPtr\<close> on. Past the end \<^verbatim>\<open>bytes[bytesPtr++]\<close> is \<^verbatim>\<open>undefined\<close>, which the
  bitwise operators read as 0, so the loop stops there. The result is the value, the last
  byte read (0 for \<^verbatim>\<open>undefined\<close>), the final shift and the number of bytes consumed.
\<close>

fun leb32 :: "nat list \<Rightarrow> int \<Rightarrow> nat \<Rightarrow> nat \<Rightarrow> int \<times> nat \<times> nat \<times> nat" where
  "leb32 [] v shift n = (js_or v (js_shl 0 shift), 0, shift + 7, Suc n)"
| "leb32 (byte # bs) v shift n =
     (let v' = js_or v (js_shl (int (byte AND 0x7F)) shift) in
      if byte AND 0x80 \<noteq> 0 then leb32 bs v' (shift + 7) (Suc n)
      else (v', byte, shift + 7, Suc n))"

fun leb64 :: "nat list \<Rightarrow> int \<Rightarrow> nat \<Rightarrow> nat \<Rightarrow> int \<times> nat \<times> nat \<times> nat" where
  "leb64 [] v shift n = (v, 0, shift + 7, Suc n)"
| "leb64 (byte # bs) v shift n =
     (let v' = v OR push_bit shift (int (byte AND 0x7F)) in
      if byte AND 0x80 \<noteq> 0 then leb64 bs v' (shift + 7) (Suc n)
      else (v', byte, shift + 7, Suc n))"

definition readU32LEB :: "cenv \<Rightarrow> cstate \<Rightarrow> int \<times> cstate" where
  "readU32LEB E s =
     (case leb32 (drop (bytesPtr s) (bytes (wasm E))) 0 0 0 of
        (v, byte, shift, n) \<Rightarrow> (js_ushr v 0, s\<lparr>bytesPtr := bytesPtr s + n\<rparr>))"

definition readI32LEB :: "cenv \<Rightarrow> cstate \<Rightarrow> int \<times> cstate" where
  "readI32LEB E s =
     (case leb32 (drop (bytesPtr s) (bytes (wasm E))) 0 0 0 of
        (v, byte, shift, n) \<Rightarrow>
          (if shift < 32 \<and> byte AND 0x40 \<noteq> 0 then js_or v (js_shl (-1) shift) else v,
           s\<lparr>bytesPtr := bytesPtr s + n\<rparr>))"

definition readI64LEB :: "cenv \<Rightarrow> cstate \<Rightarrow> int \<times> cstate" where
  "readI64LEB E s =
     (case leb64 (drop (bytesPtr s) (bytes (wasm E))) 0 0 0 of
        (v, byte, shift, n) \<Rightarrow>
          (if shift < 64 \<and> byte AND 0x40 \<noteq> 0 then v OR push_bit shift (-1) else v,
           s\<lparr>bytesPtr := bytesPtr s + n\<rparr>))"

text \<open>\<^verbatim>\<open>readBlockType\<close>: the argument and return counts of a block.\<close>

definition readBlockType :: "cenv \<Rightarrow> cstate \<Rightarrow> (nat \<times> nat) result" where
  "readBlockType E s =
     (case at (bytes (wasm E)) (int (bytesPtr s)) of
        None \<Rightarrow>
          (case readU32LEB E s of (typeIndex, s1) \<Rightarrow>
             (case at (typeSection (wasm E)) typeIndex of
                None \<Rightarrow> Inl TypeError
              | Some (argTypes, returnTypes) \<Rightarrow> Inr ((length argTypes, length returnTypes), s1)))
      | Some byte \<Rightarrow>
          if byte = 0x40 then Inr ((0, 0), s\<lparr>bytesPtr := bytesPtr s + 1\<rparr>)
          else if byte AND 0x40 \<noteq> 0 then Inr ((0, 1), s\<lparr>bytesPtr := bytesPtr s + 1\<rparr>)
          else
            (case readU32LEB E s of (typeIndex, s1) \<Rightarrow>
               (case at (typeSection (wasm E)) typeIndex of
                  None \<Rightarrow> Inl TypeError
                | Some (argTypes, returnTypes) \<Rightarrow>
                    Inr ((length argTypes, length returnTypes), s1))))"

subsection \<open>Stack slots and AST words\<close>

text \<open>
  \<^verbatim>\<open>stackSlotName\<close>: the \<^verbatim>\<open>while\<close> loop declares the slots from
  \<^verbatim>\<open>stackLimit + 1\<close> up to the slot asked for.
\<close>

definition slotVar :: "int \<Rightarrow> string" where
  "slotVar k = CHR ''s'' # show_int k"

definition stackSlotName :: "int \<Rightarrow> cstate \<Rightarrow> string \<times> cstate" where
  "stackSlotName stackSlot s =
     (slotVar stackSlot,
      if stackLimit s < stackSlot
      then s\<lparr>decls := decls s @ map slotVar [stackLimit s + 1 .. stackSlot],
             stackLimit := stackSlot\<rparr>
      else s)"

text \<open>
  \<^verbatim>\<open>ast[i] = w\<close> on the \<^verbatim>\<open>Int32Array(1 << 16)\<close>: the word is wrapped to 32 bits, and
  a store at an index past the last of the 65536 words is dropped.
\<close>

definition astStore :: "nat \<Rightarrow> int \<Rightarrow> (nat \<Rightarrow> int) \<Rightarrow> nat \<Rightarrow> int" where
  "astStore i w a = (if i < 65536 then a(i := toInt32 w) else a)"

text \<open>\<^verbatim>\<open>ast[astNextPtr++] = w\<close> and \<^verbatim>\<open>astPtrs.push(astNextPtr)\<close>.\<close>

definition pushWord :: "int \<Rightarrow> cstate \<Rightarrow> cstate" where
  "pushWord w s = s\<lparr>ast := astStore (astNextPtr s) w (ast s), astNextPtr := astNextPtr s + 1\<rparr>"

definition pushPtr :: "cstate \<Rightarrow> cstate" where
  "pushPtr s = s\<lparr>astPtrs := astPtrs s @ [Some (astNextPtr s)]\<rparr>"

definition pushUnary :: "nat \<Rightarrow> int \<Rightarrow> cstate \<Rightarrow> cstate" where
  "pushUnary op stackSlot s =
     pushWord (- stackSlot)
       (pushWord (js_or (js_or (int op) (js_shl 1 ChildCountShift)) (js_shl stackSlot OutSlotShift))
          (pushPtr s))"

text \<open>The three parts of a header word.\<close>

definition nodeOp :: "int \<Rightarrow> nat" where
  "nodeOp node = nat (js_and node OpMask)"

definition nodeChildCount :: "int \<Rightarrow> nat" where
  "nodeChildCount node = nat (js_and (js_shr node ChildCountShift) ChildCountMask)"

definition nodeOutSlot :: "int \<Rightarrow> int" where
  "nodeOutSlot node = js_ushr node OutSlotShift"

section \<open>emit and emitUnwrapped\<close>

text \<open>
  Most cases of the \<^verbatim>\<open>switch\<close> of \<^verbatim>\<open>emitUnwrapped\<close> return a template literal whose
  holes are filled from left to right. A \<open>piece\<close> is one part of such a template:
  literal text, \<^verbatim>\<open>emit(ast[ptr + k])\<close>, the offset text
  \<^verbatim>\<open>offset ? '+' + offset : ''\<close> for \<^verbatim>\<open>offset = ast[ptr + k]\<close>, the number
  \<^verbatim>\<open>ast[ptr + k]\<close>, or \<^verbatim>\<open>names[ast[ptr + k]]\<close>.
  A store passes \<^verbatim>\<open>emit(ast[ptr + 2])\<close> as an argument, so the value is emitted before
  the address that stands to its left in the text: \<open>StoreShape pre mid post\<close> is
  \<open>pre\<close>, address, offset, \<open>mid\<close>, value, \<open>post\<close>.
\<close>

datatype piece = Lit string | Child nat | Offset nat | Word nat | Name nat

datatype shape = Pieces "piece list" | StoreShape string string string

definition call1 :: "string \<Rightarrow> shape" where
  "call1 f = Pieces [Lit (f @ ''(''), Child 1, Lit '')'']"

definition call2 :: "string \<Rightarrow> shape" where
  "call2 f = Pieces [Lit (f @ ''(''), Child 1, Lit '','', Child 2, Lit '')'']"

definition binary :: "string \<Rightarrow> string \<Rightarrow> string \<Rightarrow> shape" where
  "binary pre mid post = Pieces [Lit pre, Child 1, Lit mid, Child 2, Lit post]"

definition unary :: "string \<Rightarrow> string \<Rightarrow> shape" where
  "unary pre post = Pieces [Lit pre, Child 1, Lit post]"

text \<open>The bodies of \<^verbatim>\<open>load\<close>, \<^verbatim>\<open>load8\<close>, \<^verbatim>\<open>store\<close> and \<^verbatim>\<open>store8\<close>.\<close>

definition load :: "ContextField \<Rightarrow> string \<Rightarrow> piece list" where
  "load cf getter = [Lit (''c.'' @ cfDataView cf @ ''.get'' @ getter @ ''(''), Child 1, Offset 2, Lit '',1)'']"

definition load8 :: "string \<Rightarrow> piece list" where
  "load8 field = [Lit (''c.'' @ field @ ''[''), Child 1, Offset 2, Lit '']'']"

definition store :: "ContextField \<Rightarrow> string \<Rightarrow> string \<Rightarrow> string \<Rightarrow> shape" where
  "store cf setter pre post =
     StoreShape (''c.'' @ cfDataView cf @ ''.set'' @ setter @ ''('') ('','' @ pre) (post @ '',1)'')"

definition store8 :: "string \<Rightarrow> string \<Rightarrow> string \<Rightarrow> shape" where
  "store8 field pre post = StoreShape (''c.'' @ field @ ''['') ('']='' @ pre) post"

definition mask64 :: string where
  "mask64 = ''&0xFFFFFFFFFFFFFFFFn''"

text \<open>
  The cases of the \<^verbatim>\<open>switch\<close> in the order of the source, the opcodes that share one
  text on the left. \<^verbatim>\<open>call\<close>, \<^verbatim>\<open>call_indirect\<close>, \<^verbatim>\<open>memory_size\<close>,
  \<^verbatim>\<open>memory_grow\<close> and the constants other than \<^verbatim>\<open>i32_const\<close> are in
  \<open>emitNode\<close> below.
\<close>

definition shapes :: "ContextField \<Rightarrow> (nat list \<times> shape) list" where
  "shapes cf =
   [([0x00, 0x02], call1 ''l.i32_trunc_sat_s_''),
    ([0x01, 0x03], call1 ''l.i32_trunc_sat_u_''),
    ([0x04, 0x06], call1 ''l.i64_trunc_sat_s_''),
    ([0x05, 0x07], call1 ''l.i64_trunc_sat_u_''),
    ([0x0A], Pieces [Lit (''c.'' @ cfUint8Array cf @ ''.copyWithin(''), Child 1, Lit '',T='',
                     Child 2, Lit '',T+'', Child 3, Lit '')'']),
    ([0x0B], Pieces [Lit (''c.'' @ cfUint8Array cf @ ''.fill(''), Child 1, Lit '',T='',
                     Child 2, Lit '',T+'', Child 3, Lit '')'']),
    ([0x1B], Pieces [Child 1, Lit ''?'', Child 2, Lit '':'', Child 3]),
    ([0x20], Pieces [Name 1]),
    ([0x21, 0x22], Pieces [Name 2, Lit ''='', Child 1]),
    ([0x23], Pieces [Lit ''g['', Word 1, Lit '']'']),
    ([0x24], Pieces [Lit ''g['', Word 2, Lit '']='', Child 1]),
    ([0x28], Pieces (load cf ''Int32'')),
    ([0xF5], Pieces (load cf ''Uint32'')),
    ([0x29], Pieces (load cf ''BigUint64'')),
    ([0xF6], Pieces (load cf ''BigInt64'')),
    ([0x2A], Pieces (load cf ''Float32'')),
    ([0x2B], Pieces (load cf ''Float64'')),
    ([0x2C], Pieces (load8 (cfInt8Array cf))),
    ([0x2D], Pieces (load8 (cfUint8Array cf))),
    ([0x2E], Pieces (load cf ''Int16'')),
    ([0x2F], Pieces (load cf ''Uint16'')),
    ([0x30], Pieces (Lit ''BigInt('' # load8 (cfInt8Array cf) @ [Lit ('')'' @ mask64)])),
    ([0x31], Pieces (Lit ''BigInt('' # load8 (cfUint8Array cf) @ [Lit '')''])),
    ([0x32], Pieces (Lit ''BigInt('' # load cf ''Int16'' @ [Lit ('')'' @ mask64)])),
    ([0x33], Pieces (Lit ''BigInt('' # load cf ''Uint16'' @ [Lit '')''])),
    ([0x34], Pieces (Lit ''BigInt('' # load cf ''Int32'' @ [Lit ('')'' @ mask64)])),
    ([0x35], Pieces (Lit ''BigInt('' # load cf ''Uint32'' @ [Lit '')''])),
    ([0x36], store cf ''Int32'' [] []),
    ([0x37], store cf ''BigUint64'' [] []),
    ([0x38], store cf ''Float32'' [] []),
    ([0x39], store cf ''Float64'' [] []),
    ([0x3A], store8 (cfUint8Array cf) [] []),
    ([0x3B], store cf ''Int16'' [] []),
    ([0x3C], store8 (cfUint8Array cf) ''Number('' ''&255n)''),
    ([0x3D], store cf ''Int16'' ''Number('' ''&65535n)''),
    ([0x3E], store cf ''Int32'' ''Number('' ''&0xFFFFFFFFn)''),
    ([0x41], Pieces [Word 1]),
    ([0xF0], Pieces [Child 1]),
    ([0xF1], unary ''!'' []),
    ([0xF2], unary [] ''?1:0''),
    ([0xF3], unary [] ''>>>0''),
    ([0xF4], call1 ''l.u64_to_s64_''),
    ([0x45, 0x50], unary [] ''?0:1''),
    ([0x46, 0x51, 0x5B, 0x61], binary [] ''==='' []),
    ([0x47, 0x52, 0x5C, 0x62], binary [] ''!=='' []),
    ([0x48, 0x49, 0x53, 0x54, 0x5D, 0x63], binary [] ''<'' []),
    ([0x4A, 0x4B, 0x55, 0x56, 0x5E, 0x64], binary [] ''>'' []),
    ([0x4C, 0x4D, 0x57, 0x58, 0x5F, 0x65], binary [] ''<='' []),
    ([0x4E, 0x4F, 0x59, 0x5A, 0x60, 0x66], binary [] ''>='' []),
    ([0x67], call1 ''Math.clz32''),
    ([0x68], call1 ''l.i32_ctz_''),
    ([0x69], call1 ''l.i32_popcnt_''),
    ([0x6A], binary [] ''+'' ''|0''),
    ([0x6B], binary [] ''-'' ''|0''),
    ([0x6C], call2 ''Math.imul''),
    ([0x6E, 0x6D], binary [] ''/'' ''|0''),
    ([0x70, 0x6F], binary [] ''%'' ''|0''),
    ([0x71], binary [] ''&'' []),
    ([0x72], binary [] ''|'' []),
    ([0x73], binary [] ''^'' []),
    ([0x74], binary [] ''<<'' []),
    ([0x75], binary [] ''>>'' []),
    ([0x76], binary [] ''>>>'' ''|0''),
    ([0x77], call2 ''l.i32_rotl_''),
    ([0x78], call2 ''l.i32_rotr_''),
    ([0x79], call1 ''l.i64_clz_''),
    ([0x7A], call1 ''l.i64_ctz_''),
    ([0x7B], call1 ''l.i64_popcnt_''),
    ([0x7C], binary ''('' ''+'' ('')'' @ mask64)),
    ([0x7D], binary ''('' ''-'' ('')'' @ mask64)),
    ([0x7E], binary ''('' ''*'' ('')'' @ mask64)),
    ([0x7F], binary [] ''/'' mask64),
    ([0x80], binary [] ''/'' []),
    ([0x81], binary [] ''%'' mask64),
    ([0x82], binary [] ''%'' []),
    ([0x83], binary [] ''&'' []),
    ([0x84], binary [] ''|'' []),
    ([0x85], binary [] ''^'' []),
    ([0x86], binary [] ''<<'' mask64),
    ([0x87], binary ''l.u64_to_s64_('' '')>>'' mask64),
    ([0x88], binary [] ''>>'' []),
    ([0x89], call2 ''l.i64_rotl_''),
    ([0x8A], call2 ''l.i64_rotr_''),
    ([0x8B, 0x99], call1 ''Math.abs''),
    ([0x8C, 0x9A], unary ''-'' []),
    ([0x8D, 0x9B], call1 ''Math.ceil''),
    ([0x8E, 0x9C], call1 ''Math.floor''),
    ([0x8F, 0x9D], call1 ''Math.trunc''),
    ([0x90, 0x9E], call1 ''l.nearest_''),
    ([0x91, 0x9F], call1 ''Math.sqrt''),
    ([0x92, 0xA0], binary [] ''+'' []),
    ([0x93, 0xA1], binary [] ''-'' []),
    ([0x94, 0xA2], binary [] ''*'' []),
    ([0x95, 0xA3], binary [] ''/'' []),
    ([0x96, 0xA4], call2 ''Math.min''),
    ([0x97, 0xA5], call2 ''Math.max''),
    ([0x98, 0xA6], call2 ''l.copysign_''),
    ([0xA7], unary ''Number('' ''&0xFFFFFFFFn)|0''),
    ([0xA8, 0xA9, 0xAA, 0xAB], unary ''Math.trunc('' '')|0''),
    ([0xAC], call1 ''BigInt''),
    ([0xAD], unary ''BigInt('' ''>>>0)''),
    ([0xAE, 0xAF, 0xB0, 0xB1], unary ''BigInt(Math.trunc('' (''))'' @ mask64)),
    ([0xB4, 0xB5, 0xBA, 0xB9], call1 ''Number''),
    ([0xBC], call1 ''l.i32_reinterpret_f32_''),
    ([0xBD], call1 ''l.i64_reinterpret_f64_''),
    ([0xBE], call1 ''l.f32_reinterpret_i32_''),
    ([0xBF], call1 ''l.f64_reinterpret_i64_''),
    ([0xC0], unary [] ''<<24>>24''),
    ([0xC1], unary [] ''<<16>>16''),
    ([0xC2], call1 ''l.i64_extend8_s_''),
    ([0xC3], call1 ''l.i64_extend16_s_''),
    ([0xC4], call1 ''l.i64_extend32_s_'')]"

definition shapeOf :: "ContextField \<Rightarrow> nat \<Rightarrow> shape option" where
  "shapeOf cf op = map_option snd (find (\<lambda>(ops, sh). op \<in> set ops) (shapes cf))"

text \<open>
  \<^verbatim>\<open>emit\<close>, over the function that emits a node: a negative word names a stack slot,
  any other is a node pointer, whose text is put in parentheses.
\<close>

definition emitVia :: "(nat \<Rightarrow> cstate \<Rightarrow> string result) \<Rightarrow> int \<Rightarrow> cstate \<Rightarrow> string result" where
  "emitVia emitNodeAt ptr s =
     (if ptr < 0 then Inr (stackSlotName (- ptr) s)
      else case emitNodeAt (nat ptr) s of
             Inl e \<Rightarrow> Inl e
           | Inr (t, s1) \<Rightarrow> Inr (''('' @ t @ '')'', s1))"

definition emitPiece :: "(int \<Rightarrow> cstate \<Rightarrow> string result) \<Rightarrow> cenv \<Rightarrow> nat \<Rightarrow> piece \<Rightarrow> cstate \<Rightarrow> string result" where
  "emitPiece em E ptr p s =
     (case p of
        Lit t \<Rightarrow> Inr (t, s)
      | Child k \<Rightarrow> em (ast s (ptr + k)) s
      | Offset k \<Rightarrow> Inr (if ast s (ptr + k) \<noteq> 0 then CHR ''+'' # show_int (ast s (ptr + k)) else [], s)
      | Word k \<Rightarrow> Inr (show_int (ast s (ptr + k)), s)
      | Name k \<Rightarrow> Inr (case at (names E) (ast s (ptr + k)) of
                          Some name \<Rightarrow> name | None \<Rightarrow> ''undefined'', s))"

fun emitPieces :: "(int \<Rightarrow> cstate \<Rightarrow> string result) \<Rightarrow> cenv \<Rightarrow> nat \<Rightarrow> piece list \<Rightarrow> cstate \<Rightarrow> string result" where
  "emitPieces em E ptr [] s = Inr ([], s)"
| "emitPieces em E ptr (p # ps) s =
     (case emitPiece em E ptr p s of
        Inl e \<Rightarrow> Inl e
      | Inr (t, s1) \<Rightarrow>
          (case emitPieces em E ptr ps s1 of
             Inl e \<Rightarrow> Inl e
           | Inr (u, s2) \<Rightarrow> Inr (t @ u, s2)))"

text \<open>The loops that emit the arguments of a call and name its result slots.\<close>

fun emitChildren :: "(int \<Rightarrow> cstate \<Rightarrow> string result) \<Rightarrow> nat \<Rightarrow> nat list \<Rightarrow> cstate \<Rightarrow> (string list) result" where
  "emitChildren em ptr [] s = Inr ([], s)"
| "emitChildren em ptr (k # ks) s =
     (case em (ast s (ptr + k)) s of
        Inl e \<Rightarrow> Inl e
      | Inr (t, s1) \<Rightarrow>
          (case emitChildren em ptr ks s1 of
             Inl e \<Rightarrow> Inl e
           | Inr (ts, s2) \<Rightarrow> Inr (t # ts, s2)))"

fun slotNames :: "int list \<Rightarrow> cstate \<Rightarrow> string list \<times> cstate" where
  "slotNames [] s = ([], s)"
| "slotNames (k # ks) s =
     (case stackSlotName k s of (t, s1) \<Rightarrow>
        (case slotNames ks s1 of (ts, s2) \<Rightarrow> (t # ts, s2)))"

definition multiReturn :: "int \<Rightarrow> nat \<Rightarrow> string \<Rightarrow> cstate \<Rightarrow> string result" where
  "multiReturn slot n code s =
     (case slotNames (map (\<lambda>i. slot + int i) [0 ..< n]) s of
        (returns, s1) \<Rightarrow> Inr (''['' @ joinComma returns @ '']='' @ code, s1))"

definition emitCall :: "(int \<Rightarrow> cstate \<Rightarrow> string result) \<Rightarrow> cenv \<Rightarrow> nat \<Rightarrow> cstate \<Rightarrow> string result" where
  "emitCall em E ptr s =
     (let childCount = nodeChildCount (ast s ptr);
          funcIndex = ast s (ptr + childCount + 1)
      in case at (funcTypes E) funcIndex of
           None \<Rightarrow> Inl TypeError
         | Some (argTypes, returnTypes) \<Rightarrow>
             (case emitChildren em ptr [1 ..< childCount + 1] s of
                Inl e \<Rightarrow> Inl e
              | Inr (args, s1) \<Rightarrow>
                  (let code = ''f['' @ show_int funcIndex @ '']('' @ joinComma args @ '')''
                   in if length returnTypes < 2 then Inr (code, s1)
                      else multiReturn (ast s1 (ptr + childCount + 2)) (length returnTypes) code s1)))"

definition emitCallIndirect :: "(int \<Rightarrow> cstate \<Rightarrow> string result) \<Rightarrow> cenv \<Rightarrow> nat \<Rightarrow> cstate \<Rightarrow> string result" where
  "emitCallIndirect em E ptr s =
     (let childCount = nodeChildCount (ast s ptr);
          typeIndex = ast s (ptr + childCount + 2)
      in case at (typeSection (wasm E)) typeIndex of
           None \<Rightarrow> Inl TypeError
         | Some (argTypes, returnTypes) \<Rightarrow>
             (case em (ast s (ptr + 1)) s of
                Inl e \<Rightarrow> Inl e
              | Inr (func, s1) \<Rightarrow>
                  (case emitChildren em ptr [2 ..< childCount + 2] s1 of
                     Inl e \<Rightarrow> Inl e
                   | Inr (args, s2) \<Rightarrow>
                       (let code = ''t['' @ func @ '']('' @ joinComma args @ '')''
                        in if length returnTypes < 2 then Inr (code, s2)
                           else multiReturn (ast s2 (ptr + childCount + 3)) (length returnTypes)
                                  code s2))))"

definition emitStore :: "(int \<Rightarrow> cstate \<Rightarrow> string result) \<Rightarrow> nat \<Rightarrow> string \<Rightarrow> string \<Rightarrow> string \<Rightarrow> cstate \<Rightarrow> string result" where
  "emitStore em ptr pre mid post s =
     (case em (ast s (ptr + 2)) s of
        Inl e \<Rightarrow> Inl e
      | Inr (v, s1) \<Rightarrow>
          (case em (ast s1 (ptr + 1)) s1 of
             Inl e \<Rightarrow> Inl e
           | Inr (addr, s2) \<Rightarrow>
               Inr (pre @ addr @
                    (if ast s2 (ptr + 3) \<noteq> 0 then CHR ''+'' # show_int (ast s2 (ptr + 3)) else [])
                    @ mid @ v @ post, s2)))"

text \<open>One run of the body of \<^verbatim>\<open>emitUnwrapped\<close>, over \<^verbatim>\<open>emit\<close>.\<close>

definition emitNode :: "(int \<Rightarrow> cstate \<Rightarrow> string result) \<Rightarrow> cenv \<Rightarrow> nat \<Rightarrow> cstate \<Rightarrow> string result" where
  "emitNode em E ptr s =
     (let op = nodeOp (ast s ptr) in
      if op = Op_call then emitCall em E ptr s
      else if op = Op_call_indirect then emitCallIndirect em E ptr s
      else if op = Op_memory_size then
        (if ast s (ptr + 1) \<noteq> 0 then Inl UnsupportedMemoryIndex
         else Inr (''c.'' @ cfPageCount (ctxField E), s))
      else if op = Op_memory_grow then
        (if ast s (ptr + 2) \<noteq> 0 then Inl UnsupportedMemoryIndex
         else emitPieces em E ptr
                [Lit (''c.'' @ cfPageGrow (ctxField E) @ ''(''), Child 1, Lit '')''] s)
      else if op = Op_i64_const then
        (case at (constants s) (ast s (ptr + 1)) of
           None \<Rightarrow> Inl TypeError
         | Some c \<Rightarrow> Inr (show_int (take_bit 64 c) @ ''n'', s))
      else if op = Op_f32_const then
        (case getFloat32 (wasm E) (ast s (ptr + 1)) of
           None \<Rightarrow> Inl RangeError | Some t \<Rightarrow> Inr (t, s))
      else if op = Op_f64_const then
        (case getFloat64 (wasm E) (ast s (ptr + 1)) of
           None \<Rightarrow> Inl RangeError | Some t \<Rightarrow> Inr (t, s))
      else
        (case shapeOf (ctxField E) op of
           None \<Rightarrow> Inl InternalError
         | Some (Pieces ps) \<Rightarrow> emitPieces em E ptr ps s
         | Some (StoreShape pre mid post) \<Rightarrow> emitStore em ptr pre mid post s))"

text \<open>
  \<^verbatim>\<open>emitUnwrapped\<close> and \<^verbatim>\<open>emit\<close> call each other; the first argument is the number
  of nested calls of \<^verbatim>\<open>emitUnwrapped\<close> that the call stack still holds.
\<close>

primrec emitUnwrapped :: "nat \<Rightarrow> cenv \<Rightarrow> nat \<Rightarrow> cstate \<Rightarrow> string result" where
  "emitUnwrapped 0 E ptr s = Inl RangeError"
| "emitUnwrapped (Suc d) E ptr s = emitNode (emitVia (emitUnwrapped d E)) E ptr s"

definition emit :: "nat \<Rightarrow> cenv \<Rightarrow> int \<Rightarrow> cstate \<Rightarrow> string result" where
  "emit d E ptr s = emitVia (emitUnwrapped d E) ptr s"

section \<open>finalizeBasicBlock\<close>

definition usesTypedArrays :: "nat \<Rightarrow> bool" where
  "usesTypedArrays op =
     ((op \<ge> Op_i32_load \<and> op \<le> Op_i64_store32) \<or> op = Op_memory_copy \<or> op = Op_memory_fill)"

text \<open>\<^verbatim>\<open>optimizeNode(ast, constants, allocateNode, ptr)\<close> on the state.\<close>

definition applyOptimizer :: "cenv \<Rightarrow> nat \<Rightarrow> cstate \<Rightarrow> nat \<times> cstate" where
  "applyOptimizer E ptr s =
     (case optimizeNode E (ast s) (constants s) (astNextPtr s) ptr of
        (a, cs, n, r) \<Rightarrow> (r, s\<lparr>ast := a, constants := cs, astNextPtr := n\<rparr>))"

text \<open>
  The inner loop \<^verbatim>\<open>for (let k = i; k >= 0; k--)\<close> of \<^verbatim>\<open>optimizeChildrenAndSelf\<close>,
  entered with \<open>Suc k\<close> for the index \<open>k\<close>. \<open>self\<close> is the recursive call,
  \<open>ptr\<close> and \<open>j\<close> name the child word \<^verbatim>\<open>ast[ptr + j + 1]\<close> being filled,
  \<open>stackSlot\<close> is the slot it refers to. \<^verbatim>\<open>i\<close> never exceeds the last index of
  \<open>astPtrs\<close>, so \<open>astPtrs s ! k\<close> is an element of the list.
\<close>

fun scanLoop :: "(nat \<Rightarrow> cstate \<Rightarrow> nat result) \<Rightarrow> nat \<Rightarrow> nat \<Rightarrow> bool \<Rightarrow> int \<Rightarrow> bool \<Rightarrow> nat \<Rightarrow> cstate \<Rightarrow> error + cstate" where
  "scanLoop self ptr j usesTA stackSlot didSkip 0 s = Inr s"
| "scanLoop self ptr j usesTA stackSlot didSkip (Suc k) s =
     (case astPtrs s ! k of
        None \<Rightarrow> scanLoop self ptr j usesTA stackSlot didSkip k s
      | Some prevPtr \<Rightarrow>
          (let prevNode = ast s prevPtr; prevOp = nodeOp prevNode in
           if usesTA \<and> (prevOp < Op_i32_const \<or> prevOp > Op_i64_const) \<and> prevOp \<noteq> Op_local_get
           then Inr s
           else if nodeOutSlot prevNode = stackSlot then
             (case self prevPtr (s\<lparr>astPtrs := (astPtrs s)[k := None],
                                   fbI := (if didSkip then fbI s else int k - 1)\<rparr>) of
                Inl e \<Rightarrow> Inl e
              | Inr (r, s1) \<Rightarrow> Inr (s1\<lparr>ast := astStore (ptr + j + 1) (int r) (ast s1)\<rparr>))
           else if prevOp \<noteq> Op_TO_U32 \<and> prevOp \<noteq> Op_TO_S64 then Inr s
           else scanLoop self ptr j usesTA stackSlot True k s))"

text \<open>
  The outer loop \<^verbatim>\<open>for (let j = childCount - 1; i >= 0 && j >= 0; j--)\<close>, entered with
  \<open>Suc j\<close> for the child \<open>j\<close>.
\<close>

fun childLoop :: "(nat \<Rightarrow> cstate \<Rightarrow> nat result) \<Rightarrow> nat \<Rightarrow> bool \<Rightarrow> nat \<Rightarrow> cstate \<Rightarrow> error + cstate" where
  "childLoop self ptr usesTA 0 s = Inr s"
| "childLoop self ptr usesTA (Suc j) s =
     (if fbI s < 0 then Inr s
      else case scanLoop self ptr j usesTA (- ast s (ptr + j + 1)) False (nat (fbI s + 1)) s of
             Inl e \<Rightarrow> Inl e
           | Inr s1 \<Rightarrow> childLoop self ptr usesTA j s1)"

definition optimizeBody :: "(nat \<Rightarrow> cstate \<Rightarrow> nat result) \<Rightarrow> cenv \<Rightarrow> nat \<Rightarrow> cstate \<Rightarrow> nat result" where
  "optimizeBody self E ptr s =
     (let node = ast s ptr;
          op = nodeOp node;
          childCount = nodeChildCount node
      in case childLoop self ptr (usesTypedArrays op) childCount s of
           Inl e \<Rightarrow> Inl e
         | Inr s1 \<Rightarrow> Inr (applyOptimizer E ptr s1))"

text \<open>
  \<^verbatim>\<open>optimizeChildrenAndSelf\<close>; the first argument is the number of nested calls that the
  call stack still holds.
\<close>

primrec optimizeChildrenAndSelf :: "nat \<Rightarrow> cenv \<Rightarrow> nat \<Rightarrow> cstate \<Rightarrow> nat result" where
  "optimizeChildrenAndSelf 0 E ptr s = Inl RangeError"
| "optimizeChildrenAndSelf (Suc d) E ptr s =
     optimizeBody (optimizeChildrenAndSelf d E) E ptr s"

text \<open>The loop \<^verbatim>\<open>while (i >= 0)\<close> that optimizes the nodes in reverse.\<close>

function optimizeLoop :: "cenv \<Rightarrow> cstate \<Rightarrow> error + cstate" where
  "optimizeLoop E s =
     (if fbI s < 0 then Inr s
      else case astPtrs s ! nat (fbI s) of
             None \<Rightarrow> optimizeLoop E (s\<lparr>fbI := fbI s - 1\<rparr>)
           | Some ptr \<Rightarrow>
               (case optimizeChildrenAndSelf (callDepth E) E ptr (s\<lparr>fbI := fbI s - 1\<rparr>) of
                  Inl e \<Rightarrow> Inl e
                | Inr (r, s1) \<Rightarrow>
                    optimizeLoop E (s1\<lparr>astPtrs := (astPtrs s1)[nat (fbI s) := Some r]\<rparr>)))"
  by pat_completeness auto

text \<open>
  The loop ends because \<^verbatim>\<open>optimizeChildrenAndSelf\<close> only ever lowers \<^verbatim>\<open>i\<close>
  (to \<^verbatim>\<open>k - 1\<close> for an index \<^verbatim>\<open>k\<close> at most \<^verbatim>\<open>i\<close>).
\<close>

lemma scanLoop_fbI:
  assumes self: "\<And>p t r t'. self p t = Inr (r, t') \<Longrightarrow> fbI t' \<le> fbI t"
  shows "int n \<le> fbI s + 1 \<Longrightarrow> scanLoop self ptr j uta slot didSkip n s = Inr s'
         \<Longrightarrow> fbI s' \<le> fbI s"
proof (induction n arbitrary: didSkip)
  case 0
  then show ?case by simp
next
  case (Suc k)
  show ?case
  proof (cases "astPtrs s ! k")
    case None
    with Suc show ?thesis by simp
  next
    case (Some prevPtr)
    with Suc.prems Suc.IH [of True] show ?thesis
      by (auto simp: Let_def split: if_splits sum.splits prod.splits dest!: self)
  qed
qed

lemma childLoop_fbI:
  assumes self: "\<And>p t r t'. self p t = Inr (r, t') \<Longrightarrow> fbI t' \<le> fbI t"
  shows "childLoop self ptr uta n s = Inr s' \<Longrightarrow> fbI s' \<le> fbI s"
proof (induction n arbitrary: s)
  case 0
  then show ?case by simp
next
  case (Suc j)
  show ?case
  proof (cases "fbI s < 0")
    case True
    with Suc.prems show ?thesis by simp
  next
    case False
    with Suc.prems obtain s1 where
      a: "scanLoop self ptr j uta (- ast s (ptr + j + 1)) False (nat (fbI s + 1)) s = Inr s1"
      and b: "childLoop self ptr uta j s1 = Inr s'"
      by (auto split: sum.splits)
    from False have "int (nat (fbI s + 1)) \<le> fbI s + 1" by simp
    from scanLoop_fbI [OF self this a] have "fbI s1 \<le> fbI s" .
    with Suc.IH [OF b] show ?thesis by simp
  qed
qed

lemma optimizeChildrenAndSelf_fbI:
  "optimizeChildrenAndSelf d E ptr s = Inr (r, s') \<Longrightarrow> fbI s' \<le> fbI s"
proof (induction d arbitrary: ptr s r s')
  case 0
  then show ?case by simp
next
  case (Suc d)
  from Suc.prems obtain s1 where
    a: "childLoop (optimizeChildrenAndSelf d E) ptr (usesTypedArrays (nodeOp (ast s ptr)))
          (nodeChildCount (ast s ptr)) s = Inr s1"
    and b: "applyOptimizer E ptr s1 = (r, s')"
    by (auto simp: optimizeBody_def Let_def split: sum.splits)
  from b have "fbI s' = fbI s1"
    by (auto simp: applyOptimizer_def split: prod.splits)
  with childLoop_fbI [OF Suc.IH a] show ?case by simp
qed

termination optimizeLoop
proof (relation "measure (\<lambda>(E, s). nat (fbI s + 1))")
  show "wf (measure (\<lambda>(E, s). nat (fbI s + 1)))" by simp
next
  fix E :: cenv and s :: cstate
  assume "\<not> fbI s < 0"
  then show "((E, s\<lparr>fbI := fbI s - 1\<rparr>), E, s) \<in> measure (\<lambda>(E, s). nat (fbI s + 1))"
    by simp
next
  fix E :: cenv and s :: cstate and ptr x2 r s1
  assume live: "\<not> fbI s < 0"
    and call: "optimizeChildrenAndSelf (callDepth E) E ptr (s\<lparr>fbI := fbI s - 1\<rparr>) = Inr x2"
    and x2: "(r, s1) = x2"
  from call x2 have "fbI s1 \<le> fbI (s\<lparr>fbI := fbI s - 1\<rparr>)"
    by (auto dest: optimizeChildrenAndSelf_fbI)
  with live
  show "((E, s1\<lparr>astPtrs := (astPtrs s1)[nat (fbI s) := Some r]\<rparr>), E, s)
        \<in> measure (\<lambda>(E, s). nat (fbI s + 1))"
    by simp
qed

declare optimizeLoop.simps [simp del]

text \<open>
  The loop \<^verbatim>\<open>while (i >= 0)\<close> that emits the nodes in reverse, over the entries
  \<^verbatim>\<open>astPtrs[i]\<close>, \<^verbatim>\<open>astPtrs[i - 1]\<close>, .. \<^verbatim>\<open>astPtrs[0]\<close>; it returns \<^verbatim>\<open>parts\<close>.
\<close>

fun emitParts :: "cenv \<Rightarrow> nat option list \<Rightarrow> cstate \<Rightarrow> (string list) result" where
  "emitParts E [] s = Inr ([], s)"
| "emitParts E (None # entries) s = emitParts E entries s"
| "emitParts E (Some ptr # entries) s =
     (let stackSlot = nodeOutSlot (ast s ptr) in
      case (if stackSlot \<noteq> 0
            then (case stackSlotName stackSlot s of (name, s1) \<Rightarrow> (name @ ''='', s1))
            else ([], s)) of
        (target, s1) \<Rightarrow>
          (case emitUnwrapped (callDepth E) E ptr s1 of
             Inl e \<Rightarrow> Inl e
           | Inr (t, s2) \<Rightarrow>
               (case emitParts E entries s2 of
                  Inl e \<Rightarrow> Inl e
                | Inr (parts, s3) \<Rightarrow> Inr ((target @ t @ '';'') # parts, s3))))"

text \<open>
  The end of \<^verbatim>\<open>finalizeBasicBlock\<close>: the statements are appended to \<^verbatim>\<open>body\<close> and the
  block's node list, constants and bump pointer are reset.
\<close>

definition finishBlock :: "cenv \<Rightarrow> string option \<Rightarrow> nat option list \<Rightarrow> cstate \<Rightarrow> (string option) result" where
  "finishBlock E res entries s =
     (case emitParts E entries s of
        Inl e \<Rightarrow> Inl e
      | Inr (parts, s1) \<Rightarrow>
          Inr (res, s1\<lparr>body := body s1 @ concat (rev parts),
                       constants := [], astPtrs := [], astNextPtr := 0\<rparr>))"

definition finalizeBasicBlock :: "cenv \<Rightarrow> bool \<Rightarrow> cstate \<Rightarrow> (string option) result" where
  "finalizeBasicBlock E popStackTop s =
     (case optimizeLoop E (s\<lparr>fbI := int (length (astPtrs s)) - 1\<rparr>) of
        Inl e \<Rightarrow> Inl e
      | Inr s1 \<Rightarrow>
          (let entries = rev (astPtrs s1) in
           if popStackTop then
             (case entries of
                Some ptr # rest \<Rightarrow>
                  if nodeOutSlot (ast s1 ptr) = stackTop s1 then
                    (case emitUnwrapped (callDepth E) E ptr s1 of
                       Inl e \<Rightarrow> Inl e
                     | Inr (t, s2) \<Rightarrow>
                         finishBlock E (Some t) rest (s2\<lparr>stackTop := stackTop s2 - 1\<rparr>))
                  else finishBlock E (Some (slotVar (stackTop s1))) entries
                         (s1\<lparr>stackTop := stackTop s1 - 1\<rparr>)
              | _ \<Rightarrow> finishBlock E (Some (slotVar (stackTop s1))) entries
                       (s1\<lparr>stackTop := stackTop s1 - 1\<rparr>))
           else finishBlock E None entries s1))"

section \<open>Blocks and jumps\<close>

abbreviation (input) blockDepthLimit :: nat where "blockDepthLimit \<equiv> 256"

definition addBody :: "string \<Rightarrow> cstate \<Rightarrow> cstate" where
  "addBody t s = s\<lparr>body := body s @ t\<rparr>"

text \<open>
  \<^verbatim>\<open>pushBlock\<close> up to the call of \<^verbatim>\<open>readBlockType\<close>: the opening text and the
  two labels of the new frame.
\<close>

definition openBlock :: "BlockKind \<Rightarrow> cstate \<Rightarrow> int \<times> int \<times> cstate" where
  "openBlock k s =
     (let n = length (blocks s);
          isBelowLimit = n < blockDepthLimit;
          s1 = (if isBelowLimit then addBody (''b'' @ show_nat n @ '':'') s
                else if n = blockDepthLimit
                then (addBody (''L=1;b'' @ show_nat n @ '':for(;;){switch(L){case 1:'') s)
                       \<lparr>nextLabel := 2\<rparr>
                else s);
          lblBreak = (if isBelowLimit then - 1 else nextLabel s1);
          s2 = (if isBelowLimit then s1 else s1\<lparr>nextLabel := nextLabel s1 + 1\<rparr>);
          lblContinueOrElse =
            (if isBelowLimit then - 1 else if k \<noteq> Normal then nextLabel s2 else 0);
          s3 = (if \<not> isBelowLimit \<and> k \<noteq> Normal then s2\<lparr>nextLabel := nextLabel s2 + 1\<rparr> else s2)
      in (lblBreak, lblContinueOrElse, s3))"

definition pushBlock :: "cenv \<Rightarrow> BlockKind \<Rightarrow> cstate \<Rightarrow> int result" where
  "pushBlock E k s =
     (case openBlock k s of
        (lblBreak, lblContinueOrElse, s3) \<Rightarrow>
          (case readBlockType E s3 of
             Inl e \<Rightarrow> Inl e
           | Inr ((argc, retc), s4) \<Rightarrow>
               Inr (lblContinueOrElse,
                    s4\<lparr>blocks := blocks s4 @
                         [\<lparr>argCount = argc, isDead = False, kind = k, labelBreak = lblBreak,
                           labelContinueOrElse = lblContinueOrElse,
                           parentStackTop = stackTop s4 - int argc, returnCount = retc\<rparr>]\<rparr>)))"

text \<open>
  The copies \<^verbatim>\<open>s{parentStackTop + i}=s{stackTop - count + i};\<close> for \<^verbatim>\<open>i\<close> from 1
  to \<^verbatim>\<open>count\<close>, which \<^verbatim>\<open>jump\<close> writes when the values are not in place already.
\<close>

definition slotCopies :: "int \<Rightarrow> int \<Rightarrow> nat \<Rightarrow> string" where
  "slotCopies parent stk n =
     concat (map (\<lambda>i. slotVar (parent + int i) @ ''='' @ slotVar (stk - int n + int i) @ '';'')
                 [1 ..< n + 1])"

text \<open>
  What \<^verbatim>\<open>jump\<close> writes for block 0, from the return count of that block and
  \<^verbatim>\<open>stackTop\<close>: the loop \<^verbatim>\<open>for (let i = returnCount - 1; i >= 0; i--)\<close> collects
  \<^verbatim>\<open>'s' + (stackTop - i)\<close>.
\<close>

definition returnStatement :: "nat \<Rightarrow> int \<Rightarrow> string" where
  "returnStatement n stk =
     (if n = 1 then ''return '' @ slotVar stk @ '';''
      else if n > 1 then
        ''return['' @ joinComma (map (\<lambda>i. slotVar (stk - int i)) (rev [0 ..< n])) @ ''];''
      else ''return;'')"

text \<open>\<^verbatim>\<open>jump(index)\<close>, with the index given.\<close>

definition jump :: "int \<Rightarrow> cstate \<Rightarrow> error + cstate" where
  "jump index s =
     (if blocks s = [] then Inl TypeError
      else if isDead (last (blocks s)) then Inr s
      else if index = 0 then
        Inr (addBody (returnStatement (returnCount (hd (blocks s))) (stackTop s)) s)
      else
        (case at (blocks s) index of
           None \<Rightarrow> Inl TypeError
         | Some b \<Rightarrow>
             if kind b = Loop then
               Inr (addBody
                      ((if stackTop s > parentStackTop b + int (argCount b)
                        then slotCopies (parentStackTop b) (stackTop s) (argCount b) else []) @
                       (if index < int blockDepthLimit then ''continue b'' @ show_int index @ '';''
                        else ''L='' @ show_int (labelContinueOrElse b) @ '';continue;'')) s)
             else
               Inr (addBody
                      ((if stackTop s > parentStackTop b + int (returnCount b)
                        then slotCopies (parentStackTop b) (stackTop s) (returnCount b) else []) @
                       (if index \<le> int blockDepthLimit then ''break b'' @ show_int index @ '';''
                        else ''L='' @ show_int (labelBreak b) @ '';continue;'')) s)))"

text \<open>\<^verbatim>\<open>jump()\<close>: the default index \<^verbatim>\<open>blocks.length - readU32LEB() - 1\<close>.\<close>

definition jumpRel :: "cenv \<Rightarrow> cstate \<Rightarrow> error + cstate" where
  "jumpRel E s =
     (case readU32LEB E s of (depth, s1) \<Rightarrow> jump (int (length (blocks s1)) - depth - 1) s1)"

section \<open>The decoder\<close>

text \<open>
  \<^verbatim>\<open>blocks[blocks.length - 1].isDead_\<close>: reading or writing it throws when the block
  stack is empty.
\<close>

definition topIsDead :: "cstate \<Rightarrow> bool option" where
  "topIsDead s = (if blocks s = [] then None else Some (isDead (last (blocks s))))"

definition setTop :: "(Block \<Rightarrow> Block) \<Rightarrow> cstate \<Rightarrow> cstate" where
  "setTop f s = s\<lparr>blocks := (blocks s)[length (blocks s) - 1 := f (last (blocks s))]\<rparr>"

definition markDead :: "cstate \<Rightarrow> error + cstate" where
  "markDead s = (if blocks s = [] then Inl TypeError else Inr (setTop (\<lambda>b. b\<lparr>isDead := True\<rparr>) s))"

text \<open>The child words \<^verbatim>\<open>-(stackTop + i)\<close> for \<^verbatim>\<open>i\<close> from 1 to \<^verbatim>\<open>n\<close>.\<close>

definition pushChildren :: "nat \<Rightarrow> cstate \<Rightarrow> cstate" where
  "pushChildren n s = foldl (\<lambda>t i. pushWord (- (stackTop s + int i)) t) s [1 ..< n + 1]"

text \<open>The two nodes that \<^verbatim>\<open>MetaFlag.And63\<close> puts before a 64-bit shift or rotate.\<close>

definition pushAnd63 :: "cstate \<Rightarrow> cstate" where
  "pushAnd63 s =
     (let s1 = pushWord (int (length (constants s)))
                 (pushWord (js_or (int Op_i64_const) (js_shl (stackTop s + 1) OutSlotShift))
                    (pushPtr s));
          s2 = s1\<lparr>constants := constants s1 @ [63]\<rparr>
      in pushWord (- (stackTop s + 1))
           (pushWord (- stackTop s)
              (pushWord (js_or (js_or (int Op_i64_and) (js_shl 2 ChildCountShift))
                               (js_shl (stackTop s) OutSlotShift))
                 (pushPtr s2))))"

text \<open>
  The table-driven path, for an opcode whose flags have \<^verbatim>\<open>MetaFlag.Simple\<close>. In a
  live block it runs six steps in a row, each under its flag: the \<^verbatim>\<open>And63\<close> nodes, the
  pop of the operands, the \<^verbatim>\<open>TO_U32\<close> or \<^verbatim>\<open>TO_S64\<close> node of each operand, the node
  of the instruction, the push of its result, and the \<^verbatim>\<open>BOOL_TO_INT\<close> node.
\<close>

definition and63Operand :: "nat \<Rightarrow> cstate \<Rightarrow> cstate" where
  "and63Operand flags s = (if hasFlag flags And63 then pushAnd63 s else s)"

definition popOperands :: "nat \<Rightarrow> cstate \<Rightarrow> cstate" where
  "popOperands childCount s = s\<lparr>stackTop := stackTop s - int childCount\<rparr>"

definition coerceOperands :: "nat \<Rightarrow> nat \<Rightarrow> cstate \<Rightarrow> cstate" where
  "coerceOperands flags childCount s =
     (if hasFlag flags (ToU32 OR ToS64)
      then foldl (\<lambda>t i. pushUnary (if hasFlag flags ToU32 then Op_TO_U32 else Op_TO_S64)
                            (stackTop s + int i + 1) t) s [0 ..< childCount]
      else s)"

definition simpleNode :: "cenv \<Rightarrow> nat \<Rightarrow> nat \<Rightarrow> nat \<Rightarrow> cstate \<Rightarrow> cstate" where
  "simpleNode E op flags childCount s =
     (if \<not> hasFlag flags Omit then
        (let sa = (if hasFlag flags HasAlign then s\<lparr>bytesPtr := bytesPtr s + 1\<rparr> else s);
             sb = pushPtr sa;
             op1 = (if hasFlag flags Push
                    then js_or (int op) (js_shl (stackTop sb + 1) OutSlotShift)
                    else int op);
             sc = pushWord (js_or op1 (js_shl (int childCount) ChildCountShift)) sb;
             sd = pushChildren childCount sc
         in if hasFlag flags HasIndex
            then pushWord (fst (readU32LEB E sd)) (snd (readU32LEB E sd))
            else sd)
      else s)"

definition pushResult :: "nat \<Rightarrow> cstate \<Rightarrow> cstate" where
  "pushResult flags s = (if hasFlag flags Push then s\<lparr>stackTop := stackTop s + 1\<rparr> else s)"

definition boolToInt :: "nat \<Rightarrow> cstate \<Rightarrow> cstate" where
  "boolToInt flags s =
     (if hasFlag flags BoolToInt then pushUnary Op_BOOL_TO_INT (stackTop s) s else s)"

text \<open>In a dead block only the alignment byte and the index are consumed.\<close>

definition skipImmediates :: "cenv \<Rightarrow> nat \<Rightarrow> cstate \<Rightarrow> cstate" where
  "skipImmediates E flags s =
     (let s1 = (if hasFlag flags HasAlign then s\<lparr>bytesPtr := bytesPtr s + 1\<rparr> else s)
      in if hasFlag flags HasIndex then snd (readU32LEB E s1) else s1)"

definition decodeSimple :: "cenv \<Rightarrow> nat \<Rightarrow> nat \<Rightarrow> cstate \<Rightarrow> error + cstate" where
  "decodeSimple E op flags s =
     (case topIsDead s of
        None \<Rightarrow> Inl TypeError
      | Some False \<Rightarrow>
          (let childCount = flags AND PopMask
           in Inr (boolToInt flags
                     (pushResult flags
                        (simpleNode E op flags childCount
                           (coerceOperands flags childCount
                              (popOperands childCount (and63Operand flags s)))))))
      | Some True \<Rightarrow> Inr (skipImmediates E flags s))"

text \<open>The text a condition takes in the body: the result of \<^verbatim>\<open>finalizeBasicBlock(true)\<close>.\<close>

definition testText :: "string option \<Rightarrow> string" where
  "testText res = (case res of Some t \<Rightarrow> t | None \<Rightarrow> ''undefined'')"

definition doUnreachable :: "cenv \<Rightarrow> cstate \<Rightarrow> error + cstate" where
  "doUnreachable E s =
     (case finalizeBasicBlock E False s of
        Inl e \<Rightarrow> Inl e
      | Inr (res, s1) \<Rightarrow>
          (case topIsDead s1 of
             None \<Rightarrow> Inl TypeError
           | Some True \<Rightarrow> Inr s1
           | Some False \<Rightarrow>
               Inr (setTop (\<lambda>b. b\<lparr>isDead := True\<rparr>)
                      (addBody (CHR 0x22 # ''unreachable'' @ CHR 0x22 # ''();'') s1))))"

definition doBlock :: "cenv \<Rightarrow> cstate \<Rightarrow> error + cstate" where
  "doBlock E s =
     (case finalizeBasicBlock E False s of
        Inl e \<Rightarrow> Inl e
      | Inr (res, s1) \<Rightarrow>
          (case pushBlock E Normal s1 of
             Inl e \<Rightarrow> Inl e
           | Inr (label, s2) \<Rightarrow> Inr (if label < 0 then addBody ''{'' s2 else s2)))"

definition doLoop :: "cenv \<Rightarrow> cstate \<Rightarrow> error + cstate" where
  "doLoop E s =
     (case finalizeBasicBlock E False s of
        Inl e \<Rightarrow> Inl e
      | Inr (res, s1) \<Rightarrow>
          (case pushBlock E Loop s1 of
             Inl e \<Rightarrow> Inl e
           | Inr (label, s2) \<Rightarrow>
               Inr (addBody (if label < 0 then ''for(;;){''
                             else ''case '' @ show_int label @ '':'') s2)))"

definition doIf :: "cenv \<Rightarrow> cstate \<Rightarrow> error + cstate" where
  "doIf E s =
     (case topIsDead s of
        None \<Rightarrow> Inl TypeError
      | Some dead \<Rightarrow>
          (let s0 = (if \<not> dead
                     then pushUnary (if length (blocks s) < blockDepthLimit then Op_BOOL
                                     else Op_BOOL_NOT) (stackTop s) s
                     else s)
           in case finalizeBasicBlock E True s0 of
                Inl e \<Rightarrow> Inl e
              | Inr (res, s1) \<Rightarrow>
                  (case pushBlock E IfElse s1 of
                     Inl e \<Rightarrow> Inl e
                   | Inr (label, s2) \<Rightarrow>
                       Inr (addBody (if label < 0 then ''if('' @ testText res @ ''){''
                                     else ''if('' @ testText res @ ''){L='' @ show_int label @
                                          '';continue}'') s2))))"

definition doElse :: "cenv \<Rightarrow> cstate \<Rightarrow> error + cstate" where
  "doElse E s =
     (case finalizeBasicBlock E False s of
        Inl e \<Rightarrow> Inl e
      | Inr (res, s1) \<Rightarrow>
          (let index = int (length (blocks s1)) - 1 in
           case jump index s1 of
             Inl e \<Rightarrow> Inl e
           | Inr s2 \<Rightarrow>
               (let b = last (blocks s2);
                    s3 = addBody (if index < int blockDepthLimit then ''}else{''
                                  else ''case '' @ show_int (labelContinueOrElse b) @ '':'') s2
                in Inr ((setTop (\<lambda>b. b\<lparr>kind := Normal, isDead := False\<rparr>) s3)
                          \<lparr>stackTop := parentStackTop b + int (argCount b)\<rparr>))))"

definition doEnd :: "cenv \<Rightarrow> cstate \<Rightarrow> error + cstate" where
  "doEnd E s =
     (case finalizeBasicBlock E False s of
        Inl e \<Rightarrow> Inl e
      | Inr (res, s1) \<Rightarrow>
          if blocks s1 = [] then Inl TypeError
          else
            (let index = int (length (blocks s1)) - 1;
                 s2 = setTop (\<lambda>b. b\<lparr>labelContinueOrElse :=
                                        (if kind b \<noteq> IfElse then 0 else labelContinueOrElse b),
                                      kind := Normal\<rparr>) s1
             in case jump index s2 of
                  Inl e \<Rightarrow> Inl e
                | Inr s3 \<Rightarrow>
                    (let b = last (blocks s3);
                         s4 = addBody
                                (if index < int blockDepthLimit then ''}''
                                 else (if labelContinueOrElse b \<noteq> 0
                                       then ''case '' @ show_int (labelContinueOrElse b) @ '':''
                                       else []) @
                                      ''case '' @ show_int (labelBreak b) @ '':'' @
                                      (if index = int blockDepthLimit then ''}break}'' else [])) s3
                     in Inr (s4\<lparr>stackTop := parentStackTop b + int (returnCount b),
                                 blocks := butlast (blocks s4)\<rparr>))))"

definition doBr :: "cenv \<Rightarrow> cstate \<Rightarrow> error + cstate" where
  "doBr E s =
     (case finalizeBasicBlock E False s of
        Inl e \<Rightarrow> Inl e
      | Inr (res, s1) \<Rightarrow>
          (case jumpRel E s1 of
             Inl e \<Rightarrow> Inl e
           | Inr s2 \<Rightarrow> markDead s2))"

definition doBrIf :: "cenv \<Rightarrow> cstate \<Rightarrow> error + cstate" where
  "doBrIf E s =
     (case topIsDead s of
        None \<Rightarrow> Inl TypeError
      | Some dead \<Rightarrow>
          (case finalizeBasicBlock E True
                  (if \<not> dead then pushUnary Op_BOOL (stackTop s) s else s) of
             Inl e \<Rightarrow> Inl e
           | Inr (res, s1) \<Rightarrow>
               (case jumpRel E (addBody (''if('' @ testText res @ ''){'') s1) of
                  Inl e \<Rightarrow> Inl e
                | Inr s2 \<Rightarrow> Inr (addBody ''}'' s2))))"

text \<open>
  The loop \<^verbatim>\<open>for (let i = 0, tableCount = readU32LEB(); i < tableCount; i++)\<close> of
  \<^verbatim>\<open>br_table\<close>: \<open>brTableCases E i n\<close> writes the cases \<open>i\<close>, .. \<open>i + n - 1\<close>.
\<close>

fun brTableCases :: "cenv \<Rightarrow> nat \<Rightarrow> nat \<Rightarrow> cstate \<Rightarrow> error + cstate" where
  "brTableCases E i 0 s = Inr s"
| "brTableCases E i (Suc n) s =
     (case jumpRel E (addBody (''case '' @ show_nat i @ '':'') s) of
        Inl e \<Rightarrow> Inl e
      | Inr s1 \<Rightarrow> brTableCases E (Suc i) n s1)"

definition doBrTable :: "cenv \<Rightarrow> cstate \<Rightarrow> error + cstate" where
  "doBrTable E s =
     (case finalizeBasicBlock E True s of
        Inl e \<Rightarrow> Inl e
      | Inr (res, s1) \<Rightarrow>
          (case readU32LEB E (addBody (''switch('' @ testText res @ ''){'') s1) of
             (tableCount, s2) \<Rightarrow>
               (case brTableCases E 0 (nat tableCount) s2 of
                  Inl e \<Rightarrow> Inl e
                | Inr s3 \<Rightarrow>
                    (case jumpRel E (addBody ''default:'' s3) of
                       Inl e \<Rightarrow> Inl e
                     | Inr s4 \<Rightarrow> markDead (addBody ''}'' s4)))))"

definition doReturn :: "cenv \<Rightarrow> cstate \<Rightarrow> error + cstate" where
  "doReturn E s =
     (case finalizeBasicBlock E False s of
        Inl e \<Rightarrow> Inl e
      | Inr (res, s1) \<Rightarrow>
          (case jump 0 s1 of
             Inl e \<Rightarrow> Inl e
           | Inr s2 \<Rightarrow> markDead s2))"

text \<open>
  The node of a \<^verbatim>\<open>call\<close> or \<^verbatim>\<open>call_indirect\<close>: \<open>extra\<close> is 1 for the function
  pointer of \<^verbatim>\<open>call_indirect\<close>, whose child word comes first.
\<close>

definition pushCallNode :: "nat \<Rightarrow> nat \<Rightarrow> int \<Rightarrow> nat \<Rightarrow> nat \<Rightarrow> cstate \<Rightarrow> cstate" where
  "pushCallNode op extra index argc retc s =
     (let s1 = s\<lparr>stackTop := stackTop s - int (argc + extra)\<rparr>;
          s2 = pushPtr s1;
          op1 = (if retc = 1 then js_or (int op) (js_shl (stackTop s2 + 1) OutSlotShift)
                 else int op);
          s3 = pushWord (js_or op1 (js_shl (int argc) ChildCountShift)) s2;
          s4 = (if extra = 1 then pushWord (- (stackTop s3 + int argc + 1)) s3 else s3);
          s5 = pushWord index (pushChildren argc s4);
          s6 = (if retc > 1 then pushWord (stackTop s5 + 1) s5 else s5)
      in s6\<lparr>stackTop := stackTop s6 + int retc\<rparr>)"

definition doCall :: "cenv \<Rightarrow> cstate \<Rightarrow> error + cstate" where
  "doCall E s =
     (case readU32LEB E s of (funcIndex, s1) \<Rightarrow>
        (case topIsDead s1 of
           None \<Rightarrow> Inl TypeError
         | Some True \<Rightarrow> Inr s1
         | Some False \<Rightarrow>
             (case at (funcTypes E) funcIndex of
                None \<Rightarrow> Inl TypeError
              | Some (argTypes, returnTypes) \<Rightarrow>
                  Inr (pushCallNode Op_call 0 funcIndex (length argTypes) (length returnTypes) s1))))"

definition doCallIndirect :: "cenv \<Rightarrow> cstate \<Rightarrow> error + cstate" where
  "doCallIndirect E s =
     (case readU32LEB E s of (typeIndex, s1) \<Rightarrow>
        (case readU32LEB E s1 of (tableIndex, s2) \<Rightarrow>
           if tableIndex \<noteq> 0 then Inl (UnsupportedTableIndex tableIndex)
           else
             (case topIsDead s2 of
                None \<Rightarrow> Inl TypeError
              | Some True \<Rightarrow> Inr s2
              | Some False \<Rightarrow>
                  (case at (typeSection (wasm E)) typeIndex of
                     None \<Rightarrow> Inl TypeError
                   | Some (argTypes, returnTypes) \<Rightarrow>
                       Inr (pushCallNode Op_call_indirect 1 typeIndex (length argTypes)
                              (length returnTypes) s2)))))"

text \<open>
  A node with three children: \<^verbatim>\<open>select\<close>, \<^verbatim>\<open>memory_copy\<close> and \<^verbatim>\<open>memory_fill\<close> pop
  two slots and write the children in an order of their own.
\<close>

definition pushTernary :: "nat \<Rightarrow> int \<Rightarrow> int \<Rightarrow> int \<Rightarrow> cstate \<Rightarrow> cstate" where
  "pushTernary op a b c s =
     (let s1 = s\<lparr>stackTop := stackTop s - 2\<rparr>;
          t = stackTop s1
      in pushWord (- (t + c))
           (pushWord (- (t + b))
              (pushWord (- (t + a))
                 (pushWord (js_or (js_or (int op) (js_shl 3 ChildCountShift)) (js_shl t OutSlotShift))
                    (pushPtr s1)))))"

definition doSelect :: "cenv \<Rightarrow> cstate \<Rightarrow> error + cstate" where
  "doSelect E s =
     (case topIsDead s of
        None \<Rightarrow> Inl TypeError
      | Some True \<Rightarrow> Inr s
      | Some False \<Rightarrow> Inr (pushTernary Op_select 2 0 1 (pushUnary Op_BOOL (stackTop s) s)))"

text \<open>
  The header of a constant: \<^verbatim>\<open>op | (++stackTop << Pack.OutSlotShift)\<close>.
\<close>

definition pushConstHeader :: "nat \<Rightarrow> cstate \<Rightarrow> cstate" where
  "pushConstHeader op s =
     (let s1 = (pushPtr s)\<lparr>stackTop := stackTop s + 1\<rparr>
      in pushWord (js_or (int op) (js_shl (stackTop s1) OutSlotShift)) s1)"

definition doI32Const :: "cenv \<Rightarrow> cstate \<Rightarrow> error + cstate" where
  "doI32Const E s =
     (case topIsDead s of
        None \<Rightarrow> Inl TypeError
      | Some True \<Rightarrow> Inr (snd (readI32LEB E s))
      | Some False \<Rightarrow>
          (case readI32LEB E (pushConstHeader Op_i32_const s) of (v, s1) \<Rightarrow> Inr (pushWord v s1)))"

definition doI64Const :: "cenv \<Rightarrow> cstate \<Rightarrow> error + cstate" where
  "doI64Const E s =
     (case topIsDead s of
        None \<Rightarrow> Inl TypeError
      | Some True \<Rightarrow> Inr (snd (readI64LEB E s))
      | Some False \<Rightarrow>
          (let s1 = pushConstHeader Op_i64_const s;
               s2 = pushWord (int (length (constants s1))) s1
           in case readI64LEB E s2 of (v, s3) \<Rightarrow> Inr (s3\<lparr>constants := constants s3 @ [v]\<rparr>)))"

definition doFloatConst :: "nat \<Rightarrow> nat \<Rightarrow> cstate \<Rightarrow> error + cstate" where
  "doFloatConst op width s =
     (case topIsDead s of
        None \<Rightarrow> Inl TypeError
      | Some dead \<Rightarrow>
          (let s1 = (if \<not> dead then pushWord (int (bytesPtr s)) (pushConstHeader op s) else s)
           in Inr (s1\<lparr>bytesPtr := bytesPtr s1 + width\<rparr>)))"

text \<open>A byte is truthy when it is there and not zero.\<close>

definition truthyByte :: "nat list \<Rightarrow> nat \<Rightarrow> bool" where
  "truthyByte bs i = (case at bs (int i) of None \<Rightarrow> False | Some b \<Rightarrow> b \<noteq> 0)"

text \<open>The opcodes behind the prefix \<^verbatim>\<open>0xFC\<close>.\<close>

definition doPrefixFC :: "cenv \<Rightarrow> cstate \<Rightarrow> error + cstate" where
  "doPrefixFC E s =
     (case at (bytes (wasm E)) (int (bytesPtr s)) of
        None \<Rightarrow> Inl TypeError
      | Some op \<Rightarrow>
          (let s1 = s\<lparr>bytesPtr := bytesPtr s + 1\<rparr> in
           if op \<le> Op_i64_trunc_sat_f64_u then
             (case topIsDead s1 of
                None \<Rightarrow> Inl TypeError
              | Some True \<Rightarrow> Inr s1
              | Some False \<Rightarrow> Inr (pushUnary op (stackTop s1) s1))
           else if op = Op_memory_copy then
             (if truthyByte (bytes (wasm E)) (bytesPtr s1) then Inl UnsupportedMemoryIndex
              else if truthyByte (bytes (wasm E)) (bytesPtr s1 + 1) then Inl UnsupportedMemoryIndex
              else
                (let s2 = s1\<lparr>bytesPtr := bytesPtr s1 + 2\<rparr> in
                 case topIsDead s2 of
                   None \<Rightarrow> Inl TypeError
                 | Some True \<Rightarrow> Inr s2
                 | Some False \<Rightarrow> Inr (pushTernary op 0 1 2 s2)))
           else if op = Op_memory_fill then
             (if truthyByte (bytes (wasm E)) (bytesPtr s1) then Inl UnsupportedMemoryIndex
              else
                (let s2 = s1\<lparr>bytesPtr := bytesPtr s1 + 1\<rparr> in
                 case topIsDead s2 of
                   None \<Rightarrow> Inl TypeError
                 | Some True \<Rightarrow> Inr s2
                 | Some False \<Rightarrow> Inr (pushTernary op 1 0 2 s2)))
           else Inl (UnsupportedInstructionFC op)))"

text \<open>
  One turn of the loop \<^verbatim>\<open>while (bytesPtr < codeEnd)\<close>: the opcode is read and either the
  table or the \<^verbatim>\<open>switch\<close> decodes the instruction.
\<close>

definition step :: "cenv \<Rightarrow> cstate \<Rightarrow> error + cstate" where
  "step E s =
     (case at (bytes (wasm E)) (int (bytesPtr s)) of
        None \<Rightarrow> Inl TypeError
      | Some op \<Rightarrow>
          (let s1 = s\<lparr>bytesPtr := bytesPtr s + 1\<rparr>;
               flags = metaTable op
           in if hasFlag flags Simple then decodeSimple E op flags s1
              else if op = Op_unreachable then doUnreachable E s1
              else if op = Op_block then doBlock E s1
              else if op = Op_loop then doLoop E s1
              else if op = Op_if then doIf E s1
              else if op = Op_else then doElse E s1
              else if op = Op_end then doEnd E s1
              else if op = Op_br then doBr E s1
              else if op = Op_br_if then doBrIf E s1
              else if op = Op_br_table then doBrTable E s1
              else if op = Op_return then doReturn E s1
              else if op = Op_call then doCall E s1
              else if op = Op_call_indirect then doCallIndirect E s1
              else if op = Op_select then doSelect E s1
              else if op = Op_i32_const then doI32Const E s1
              else if op = Op_i64_const then doI64Const E s1
              else if op = Op_f32_const then doFloatConst op 4 s1
              else if op = Op_f64_const then doFloatConst op 8 s1
              else if op = 0xFC then doPrefixFC E s1
              else Inl (UnsupportedInstruction op)))"

section \<open>compileCode\<close>

function compileLoop :: "cenv \<Rightarrow> cstate \<Rightarrow> error + cstate" where
  "compileLoop E s =
     (if bytesPtr s < codeEnd E
      then (case step E s of Inl e \<Rightarrow> Inl e | Inr s1 \<Rightarrow> compileLoop E s1)
      else Inr s)"
  by pat_completeness auto

text \<open>
  The names and declarations of the locals: \<^verbatim>\<open>'t' + decls.length\<close>, initialised to
  \<^verbatim>\<open>0n\<close> for an \<^verbatim>\<open>i64\<close> and to \<^verbatim>\<open>0\<close> otherwise.
\<close>

fun addLocal :: "nat \<Rightarrow> Type \<Rightarrow> string list \<times> string list \<Rightarrow> string list \<times> string list" where
  "addLocal 0 ty (ns, ds) = (ns, ds)"
| "addLocal (Suc c) ty (ns, ds) =
     (let name = CHR ''t'' # show_nat (length ds)
      in addLocal c ty (ns @ [name], ds @ [name @ (if ty = I64 then ''=0n'' else ''=0'')]))"

fun addLocals :: "(nat \<times> Type) list \<Rightarrow> string list \<times> string list \<Rightarrow> string list \<times> string list" where
  "addLocals [] nd = nd"
| "addLocals ((c, ty) # ls) nd = addLocals ls (addLocal c ty nd)"

text \<open>
  \<^verbatim>\<open>JSON.stringify\<close> of a name whose code units are below 256: the quote and the
  backslash take a backslash, the control characters below 32 are written \<^verbatim>\<open>\b\<close>,
  \<^verbatim>\<open>\t\<close>, \<^verbatim>\<open>\n\<close>, \<^verbatim>\<open>\f\<close>, \<^verbatim>\<open>\r\<close> or, for the others, \<^verbatim>\<open>\u00\<close> and two
  hexadecimal digits in lower case.
\<close>

definition jsonChar :: "char \<Rightarrow> string" where
  "jsonChar c =
     (let n = (of_char c :: nat) in
      if n = 0x22 \<or> n = 0x5C then [CHR 0x5C, c]
      else if n = 8 then [CHR 0x5C, CHR ''b'']
      else if n = 9 then [CHR 0x5C, CHR ''t'']
      else if n = 10 then [CHR 0x5C, CHR ''n'']
      else if n = 12 then [CHR 0x5C, CHR ''f'']
      else if n = 13 then [CHR 0x5C, CHR ''r'']
      else if n < 32
      then [CHR 0x5C, CHR ''u'', CHR ''0'', CHR ''0'',
            ''0123456789abcdef'' ! (n div 16), ''0123456789abcdef'' ! (n mod 16)]
      else [c])"

definition jsonString :: "string \<Rightarrow> string" where
  "jsonString t = CHR 0x22 # concat (map jsonChar t) @ [CHR 0x22]"

text \<open>The environment and the first state of a compilation, from what the parser gave.\<close>

definition compileEnv :: "FuncType list \<Rightarrow> WASM \<Rightarrow> ContextField \<Rightarrow> optimizer \<Rightarrow> nat \<Rightarrow> nat \<Rightarrow> (nat \<times> Type) list \<Rightarrow> nat \<Rightarrow> cenv" where
  "compileEnv fts w cf opt depth argc locals cEnd =
     \<lparr>funcTypes = fts, wasm = w, ctxField = cf,
      names = fst (addLocals locals (map (\<lambda>i. CHR ''a'' # show_nat i) [0 ..< argc], [''L'', ''T''])),
      codeEnd = cEnd, optimizeNode = opt, callDepth = depth\<rparr>"

definition initialState :: "(nat \<Rightarrow> int) \<Rightarrow> nat \<Rightarrow> (nat \<times> Type) list \<Rightarrow> nat \<Rightarrow> nat \<Rightarrow> cstate" where
  "initialState astBuffer argc locals retc codeStart =
     \<lparr>bytesPtr = codeStart, ast = astBuffer, astPtrs = [], astNextPtr = 0, constants = [],
      stackLimit = 0,
      decls = snd (addLocals locals (map (\<lambda>i. CHR ''a'' # show_nat i) [0 ..< argc], [''L'', ''T''])),
      blocks = [\<lparr>argCount = 0, isDead = False, kind = Normal, labelBreak = - 1,
                 labelContinueOrElse = - 1, parentStackTop = 0, returnCount = retc\<rparr>],
      stackTop = 0, nextLabel = 0, body = ''b0:{'', fbI = 0\<rparr>"

text \<open>
  \<^verbatim>\<open>compileCode\<close> up to the text handed to \<^verbatim>\<open>new Function\<close>. \<open>astBuffer\<close> is what
  the singleton \<^verbatim>\<open>astBufferSingleton\<close> holds when the compilation starts.
  \<open>compileStart\<close> gives the environment and the state before the first instruction,
  \<open>compileState\<close> the state when the loop over the bytes has ended.
\<close>

definition compileStart :: "FuncType list \<Rightarrow> WASM \<Rightarrow> ContextField \<Rightarrow> optimizer \<Rightarrow> nat \<Rightarrow> (nat \<Rightarrow> int) \<Rightarrow> nat \<Rightarrow> error + cenv \<times> cstate" where
  "compileStart fts w cf opt depth astBuffer codeIndex =
     (case at (functionSection w) (int codeIndex) of
        None \<Rightarrow> Inl TypeError
      | Some typeIndex \<Rightarrow>
          (case at (typeSection w) (int typeIndex) of
             None \<Rightarrow> Inl TypeError
           | Some (argTypes, returnTypes) \<Rightarrow>
               (case at (codeSection w) (int codeIndex) of
                  None \<Rightarrow> Inl TypeError
                | Some (locals, codeStart, cEnd) \<Rightarrow>
                    Inr (compileEnv fts w cf opt depth (length argTypes) locals cEnd,
                         initialState astBuffer (length argTypes) locals (length returnTypes)
                           codeStart))))"

definition compileState :: "FuncType list \<Rightarrow> WASM \<Rightarrow> ContextField \<Rightarrow> optimizer \<Rightarrow> nat \<Rightarrow> (nat \<Rightarrow> int) \<Rightarrow> nat \<Rightarrow> error + cstate" where
  "compileState fts w cf opt depth astBuffer codeIndex =
     (case compileStart fts w cf opt depth astBuffer codeIndex of
        Inl e \<Rightarrow> Inl e
      | Inr (E, s) \<Rightarrow> compileLoop E s)"

definition functionName :: "WASM \<Rightarrow> nat \<Rightarrow> nat \<Rightarrow> string" where
  "functionName w codeIndex funcIndex =
     jsonString (''wasm:'' @
       (case nameSection w funcIndex of
          None \<Rightarrow> ''function['' @ show_nat codeIndex @ '']''
        | Some n \<Rightarrow> if n = [] then ''function['' @ show_nat codeIndex @ '']'' else n))"

definition argNames :: "WASM \<Rightarrow> nat \<Rightarrow> string list" where
  "argNames w codeIndex =
     (case at (typeSection w) (int (functionSection w ! codeIndex)) of
        None \<Rightarrow> []
      | Some (argTypes, returnTypes) \<Rightarrow> map (\<lambda>i. CHR ''a'' # show_nat i) [0 ..< length argTypes])"

definition compileCode :: "FuncType list \<Rightarrow> WASM \<Rightarrow> ContextField \<Rightarrow> optimizer \<Rightarrow> nat \<Rightarrow> (nat \<Rightarrow> int) \<Rightarrow> nat \<Rightarrow> nat \<Rightarrow> error + string" where
  "compileCode fts w cf opt depth astBuffer codeIndex funcIndex =
     (case compileState fts w cf opt depth astBuffer codeIndex of
        Inl e \<Rightarrow> Inl e
      | Inr s \<Rightarrow>
          if stackLimit s > 255 then Inl DeepStack
          else
            (let name = functionName w codeIndex funcIndex
             in Inr (''return{'' @ name @ ''('' @ joinComma (argNames w codeIndex) @ ''){var '' @
                     joinComma (decls s) @ '';'' @ body s @ ''}}['' @ name @ '']'')))"

section \<open>Small inputs\<close>

text \<open>
  A module of one function, for the evaluations further down: the field names of the
  context, no float constants, no locals, no name section, and a call stack of 8 frames.
\<close>

definition demoFields :: ContextField where
  "demoFields = \<lparr>cfInt8Array = ''i8'', cfUint8Array = ''u8'', cfDataView = ''dv'',
     cfPageCount = ''pc'', cfPageGrow = ''pg''\<rparr>"

definition demoWasm :: "nat list \<Rightarrow> FuncType list \<Rightarrow> WASM" where
  "demoWasm bs ts = \<lparr>bytes = bs, getFloat32 = (\<lambda>_. None), getFloat64 = (\<lambda>_. None),
     codeSection = [([], 0, length bs)], functionSection = [0], nameSection = (\<lambda>_. None),
     typeSection = ts\<rparr>"

definition demoEnv :: "nat list \<Rightarrow> FuncType list \<Rightarrow> cenv" where
  "demoEnv bs ts = compileEnv ts (demoWasm bs ts) demoFields keepNode 8
                     (length (fst (hd ts))) [] (length bs)"

definition demoStart :: "FuncType list \<Rightarrow> cstate" where
  "demoStart ts = initialState (\<lambda>_. 0) (length (fst (hd ts))) [] (length (snd (hd ts))) 0"

text \<open>The state after \<^verbatim>\<open>local.get 0\<close> has been decoded: one node, for stack slot 1.\<close>

definition oneNode :: cstate where
  "oneNode = (demoStart [([I32], [I32])])
     \<lparr>bytesPtr := 2, ast := (\<lambda>_. 0)(0 := 0x1000020, 1 := 0), astPtrs := [Some 0],
      astNextPtr := 2, stackTop := 1\<rparr>"

text \<open>A dead outer block with nothing decoded since it died.\<close>

definition deadStart :: cstate where
  "deadStart = setTop (\<lambda>b. b\<lparr>isDead := True\<rparr>) (demoStart [([], [])])"






text \<open>
  The function \<^verbatim>\<open>(i32, i32) -> ()\<close> with the body
  \<^verbatim>\<open>local.get 0; local.get 1; local.set 0; br_table 0 0; end\<close>: the states after each of
  the first three instructions. In the last one the node of \<^verbatim>\<open>local.get 0\<close>, for stack
  slot 1, is followed by the node of \<^verbatim>\<open>local.set 0\<close>, which has no stack slot.
\<close>

definition twoTypes :: "FuncType list" where
  "twoTypes = [([I32, I32], [])]"

definition getGetSet :: "nat list" where
  "getGetSet = [0x20, 0, 0x20, 1, 0x21, 0, 0x0E, 0, 0, 0x0B]"

definition afterGet :: cstate where
  "afterGet = (demoStart twoTypes)
     \<lparr>bytesPtr := 2, ast := (\<lambda>_. 0)(0 := 0x1000020, 1 := 0), astPtrs := [Some 0],
      astNextPtr := 2, stackTop := 1\<rparr>"

definition afterGetGet :: cstate where
  "afterGetGet = (demoStart twoTypes)
     \<lparr>bytesPtr := 4, ast := (\<lambda>_. 0)(0 := 0x1000020, 1 := 0, 2 := 0x2000020, 3 := 1),
      astPtrs := [Some 0, Some 2], astNextPtr := 4, stackTop := 2\<rparr>"

definition afterGetGetSet :: cstate where
  "afterGetGetSet = (demoStart twoTypes)
     \<lparr>bytesPtr := 6,
      ast := (\<lambda>_. 0)(0 := 0x1000020, 1 := 0, 2 := 0x2000020, 3 := 1, 4 := 0x121, 5 := - 2, 6 := 0),
      astPtrs := [Some 0, Some 2, Some 4], astNextPtr := 7, stackTop := 1\<rparr>"

section \<open>What the emitter and the optimizer leave unchanged\<close>

text \<open>
  The emitter only declares stack slots: it changes \<^verbatim>\<open>decls\<close> and \<^verbatim>\<open>stackLimit\<close>
  and nothing else.
\<close>

definition emitFrame :: "cstate \<Rightarrow> cstate \<Rightarrow> bool" where
  "emitFrame s t =
     (bytesPtr t = bytesPtr s \<and> ast t = ast s \<and> astPtrs t = astPtrs s \<and>
      astNextPtr t = astNextPtr s \<and> constants t = constants s \<and> blocks t = blocks s \<and>
      stackTop t = stackTop s \<and> nextLabel t = nextLabel s \<and> body t = body s \<and> fbI t = fbI s)"

lemma emitFrame_refl [simp]: "emitFrame s s"
  by (simp add: emitFrame_def)

lemma emitFrame_trans: "emitFrame s t \<Longrightarrow> emitFrame t u \<Longrightarrow> emitFrame s u"
  by (simp add: emitFrame_def)

lemma stackSlotName_frame: "stackSlotName k s = (t, s') \<Longrightarrow> emitFrame s s'"
  by (auto simp: stackSlotName_def emitFrame_def split: if_splits)

lemma slotNames_frame: "slotNames ks s = (ts, s') \<Longrightarrow> emitFrame s s'"
proof (induction ks arbitrary: s ts s')
  case Nil
  then show ?case by simp
next
  case (Cons k ks)
  then show ?case
    by (auto split: prod.splits dest!: stackSlotName_frame intro: emitFrame_trans)
qed

definition framed :: "('a \<Rightarrow> cstate \<Rightarrow> 'b result) \<Rightarrow> bool" where
  "framed f = (\<forall>x s y s'. f x s = Inr (y, s') \<longrightarrow> emitFrame s s')"

lemma framedD: "framed f \<Longrightarrow> f x s = Inr (y, s') \<Longrightarrow> emitFrame s s'"
  by (auto simp: framed_def)

lemma emitVia_framed: "framed f \<Longrightarrow> framed (emitVia f)"
  by (auto simp: framed_def emitVia_def split: if_splits sum.splits prod.splits dest: stackSlotName_frame)

lemma emitPiece_frame: "framed em \<Longrightarrow> emitPiece em E ptr p s = Inr (t, s') \<Longrightarrow> emitFrame s s'"
  by (cases p) (auto simp: emitPiece_def dest: framedD)

lemma emitPieces_frame: "framed em \<Longrightarrow> emitPieces em E ptr ps s = Inr (t, s') \<Longrightarrow> emitFrame s s'"
proof (induction ps arbitrary: s t s')
  case Nil
  then show ?case by simp
next
  case (Cons p ps)
  then show ?case
    by (auto split: sum.splits prod.splits dest!: emitPiece_frame intro: emitFrame_trans)
qed

lemma emitChildren_frame: "framed em \<Longrightarrow> emitChildren em ptr ks s = Inr (ts, s') \<Longrightarrow> emitFrame s s'"
proof (induction ks arbitrary: s ts s')
  case Nil
  then show ?case by simp
next
  case (Cons k ks)
  from Cons.prems obtain t s1 ts' where a: "em (ast s (ptr + k)) s = Inr (t, s1)"
    and b: "emitChildren em ptr ks s1 = Inr (ts', s')"
    by (auto split: sum.splits prod.splits)
  from framedD [OF Cons.prems(1) a] Cons.IH [OF Cons.prems(1) b] show ?case
    by (rule emitFrame_trans)
qed

lemma multiReturn_frame: "multiReturn slot n code s = Inr (t, s') \<Longrightarrow> emitFrame s s'"
  by (auto simp: multiReturn_def split: prod.splits dest: slotNames_frame)

lemma emitCall_frame:
  assumes em: "framed em" and r: "emitCall em E ptr s = Inr (t, s')"
  shows "emitFrame s s'"
proof -
  from r obtain ks args s1 where
    b: "emitChildren em ptr ks s = Inr (args, s1)"
    and c: "emitFrame s1 s'"
    unfolding emitCall_def Let_def
    by (auto simp del: upt_Suc split: option.splits prod.splits sum.splits if_splits
        dest: multiReturn_frame)
  from emitChildren_frame [OF em b] c show ?thesis
    by (rule emitFrame_trans)
qed

lemma emitCallIndirect_frame:
  assumes em: "framed em" and r: "emitCallIndirect em E ptr s = Inr (t, s')"
  shows "emitFrame s s'"
proof -
  from r obtain w func s1 ks args s2 where
    a: "em w s = Inr (func, s1)"
    and b: "emitChildren em ptr ks s1 = Inr (args, s2)"
    and c: "emitFrame s2 s'"
    unfolding emitCallIndirect_def Let_def
    by (auto simp del: upt_Suc split: option.splits prod.splits sum.splits if_splits
        dest: multiReturn_frame)
  with framedD [OF em a] emitChildren_frame [OF em b] show ?thesis
    by (blast intro: emitFrame_trans)
qed

lemma emitStore_frame:
  assumes em: "framed em" and r: "emitStore em ptr pre mid post s = Inr (t, s')"
  shows "emitFrame s s'"
proof -
  from r obtain w v s1 w' addr where
    a: "em w s = Inr (v, s1)"
    and b: "em w' s1 = Inr (addr, s')"
    unfolding emitStore_def
    by (auto split: sum.splits prod.splits)
  from framedD [OF em a] framedD [OF em b] show ?thesis
    by (rule emitFrame_trans)
qed

lemma emitNode_frame:
  assumes em: "framed em" and r: "emitNode em E ptr s = Inr (t, s')"
  shows "emitFrame s s'"
proof -
  consider (call) "emitCall em E ptr s = Inr (t, s')"
    | (calli) "emitCallIndirect em E ptr s = Inr (t, s')"
    | (same) "s' = s"
    | (pieces) ps where "emitPieces em E ptr ps s = Inr (t, s')"
    | (store) pre mid post where "emitStore em ptr pre mid post s = Inr (t, s')"
    using r unfolding emitNode_def Let_def
    by (auto simp del: emitPieces.simps split: if_splits option.splits shape.splits)
  then show ?thesis
  proof cases
    case call
    with em show ?thesis by (rule emitCall_frame)
  next
    case calli
    with em show ?thesis by (rule emitCallIndirect_frame)
  next
    case same
    then show ?thesis by simp
  next
    case pieces
    with em show ?thesis by (rule emitPieces_frame)
  next
    case store
    with em show ?thesis by (rule emitStore_frame)
  qed
qed

lemma emitUnwrapped_framed: "framed (emitUnwrapped d E)"
proof (induction d)
  case 0
  show ?case by (simp add: framed_def)
next
  case (Suc d)
  have "emitFrame s s'" if "emitUnwrapped (Suc d) E ptr s = Inr (t, s')" for ptr s t s'
    using emitNode_frame [OF emitVia_framed [OF Suc]] that by simp
  then show ?case
    unfolding framed_def by blast
qed

lemma emitUnwrapped_frame: "emitUnwrapped d E ptr s = Inr (t, s') \<Longrightarrow> emitFrame s s'"
  using emitUnwrapped_framed by (rule framedD)

lemma emitParts_frame: "emitParts E entries s = Inr (parts, s') \<Longrightarrow> emitFrame s s'"
proof (induction E entries s arbitrary: parts s' rule: emitParts.induct)
  case (1 E s)
  then show ?case by simp
next
  case (2 E entries s)
  then show ?case by simp
next
  case (3 E ptr entries s)
  let ?slot = "nodeOutSlot (ast s ptr)"
  obtain target s1 where
    pre: "(if ?slot \<noteq> 0 then (case stackSlotName ?slot s of (name, s1) \<Rightarrow> (name @ ''='', s1))
           else ([], s)) = (target, s1)"
    by (cases "(if ?slot \<noteq> 0 then (case stackSlotName ?slot s of (name, s1) \<Rightarrow> (name @ ''='', s1))
           else ([], s))") auto
  then have f1: "emitFrame s s1"
    by (auto split: if_splits prod.splits dest: stackSlotName_frame)
  from "3.prems" pre obtain t s2 ps where
    a: "emitUnwrapped (callDepth E) E ptr s1 = Inr (t, s2)"
    and b: "emitParts E entries s2 = Inr (ps, s')"
    by (auto simp: Let_def split: sum.splits prod.splits)
  from "3.IH" [OF refl pre [symmetric] a refl b] have "emitFrame s2 s'" .
  with f1 emitUnwrapped_frame [OF a] show ?case
    by (blast intro: emitFrame_trans)
qed


text \<open>
  The optimizer works on the AST store, the node list, the constants and \<^verbatim>\<open>i\<close>; the
  node list keeps its length.
\<close>

definition optFrame :: "cstate \<Rightarrow> cstate \<Rightarrow> bool" where
  "optFrame s t =
     (bytesPtr t = bytesPtr s \<and> stackLimit t = stackLimit s \<and> decls t = decls s \<and>
      blocks t = blocks s \<and> stackTop t = stackTop s \<and> nextLabel t = nextLabel s \<and>
      body t = body s \<and> length (astPtrs t) = length (astPtrs s))"

lemma optFrame_refl [simp]: "optFrame s s"
  by (simp add: optFrame_def)

lemma optFrame_trans: "optFrame s t \<Longrightarrow> optFrame t u \<Longrightarrow> optFrame s u"
  by (simp add: optFrame_def)

lemma scanLoop_frame:
  assumes self: "\<And>p u r u'. self p u = Inr (r, u') \<Longrightarrow> optFrame u u'"
  shows "scanLoop self ptr j uta slot didSkip n s = Inr s' \<Longrightarrow> optFrame s s'"
proof (induction n arbitrary: didSkip)
  case 0
  then show ?case by simp
next
  case (Suc k)
  show ?case
  proof (cases "astPtrs s ! k")
    case None
    with Suc show ?thesis by simp
  next
    case (Some prevPtr)
    with Suc.prems Suc.IH [of True] show ?thesis
      by (auto simp: Let_def optFrame_def split: if_splits sum.splits prod.splits dest!: self)
  qed
qed

lemma childLoop_frame:
  assumes self: "\<And>p u r u'. self p u = Inr (r, u') \<Longrightarrow> optFrame u u'"
  shows "childLoop self ptr uta n s = Inr s' \<Longrightarrow> optFrame s s'"
proof (induction n arbitrary: s)
  case 0
  then show ?case by simp
next
  case (Suc j)
  show ?case
  proof (cases "fbI s < 0")
    case True
    with Suc.prems show ?thesis by simp
  next
    case False
    with Suc.prems obtain s1 where
      a: "scanLoop self ptr j uta (- ast s (ptr + j + 1)) False (nat (fbI s + 1)) s = Inr s1"
      and b: "childLoop self ptr uta j s1 = Inr s'"
      by (auto split: sum.splits)
    from scanLoop_frame [OF self a] Suc.IH [OF b] show ?thesis
      by (rule optFrame_trans)
  qed
qed

lemma applyOptimizer_frame: "applyOptimizer E ptr s = (r, s') \<Longrightarrow> optFrame s s'"
  by (auto simp: applyOptimizer_def optFrame_def split: prod.splits)

lemma optimizeChildrenAndSelf_frame:
  "optimizeChildrenAndSelf d E ptr s = Inr (r, s') \<Longrightarrow> optFrame s s'"
proof (induction d arbitrary: ptr s r s')
  case 0
  then show ?case by simp
next
  case (Suc d)
  from Suc.prems obtain uta n s1 where
    a: "childLoop (optimizeChildrenAndSelf d E) ptr uta n s = Inr s1"
    and b: "applyOptimizer E ptr s1 = (r, s')"
    by (auto simp: optimizeBody_def Let_def split: sum.splits)
  from childLoop_frame [OF Suc.IH a] applyOptimizer_frame [OF b] show ?case
    by (rule optFrame_trans)
qed

lemma optimizeLoop_frame: "optimizeLoop E s = Inr s' \<Longrightarrow> optFrame s s'"
proof (induction E s rule: optimizeLoop.induct)
  case (1 E s)
  show ?case
  proof (cases "fbI s < 0")
    case True
    with "1.prems" show ?thesis by (simp add: optimizeLoop.simps [of E s])
  next
    case False
    show ?thesis
    proof (cases "astPtrs s ! nat (fbI s)")
      case None
      with False "1.prems" have "optimizeLoop E (s\<lparr>fbI := fbI s - 1\<rparr>) = Inr s'"
        by (simp add: optimizeLoop.simps [of E s])
      from "1.IH"(1) [OF False None this] show ?thesis
        by (simp add: optFrame_def)
    next
      case (Some ptr)
      with False "1.prems" obtain r s1 where
        a: "optimizeChildrenAndSelf (callDepth E) E ptr (s\<lparr>fbI := fbI s - 1\<rparr>) = Inr (r, s1)"
        and b: "optimizeLoop E (s1\<lparr>astPtrs := (astPtrs s1)[nat (fbI s) := Some r]\<rparr>) = Inr s'"
        by (auto simp: optimizeLoop.simps [of E s] split: sum.splits)
      from "1.IH"(2) [OF False Some a refl b] optimizeChildrenAndSelf_frame [OF a]
      show ?thesis
        by (simp add: optFrame_def)
    qed
  qed
qed

lemma finishBlock_props:
  assumes "finishBlock E res entries s = Inr (r, s')"
  shows "r = res \<and> astPtrs s' = [] \<and> constants s' = [] \<and> astNextPtr s' = 0 \<and>
         bytesPtr s' = bytesPtr s \<and> blocks s' = blocks s \<and> stackTop s' = stackTop s \<and>
         nextLabel s' = nextLabel s \<and> (\<exists>t. body s' = body s @ t)"
  using assms
  by (auto simp: finishBlock_def emitFrame_def split: sum.splits dest!: emitParts_frame)

lemma finalizeBasicBlock_props:
  assumes "finalizeBasicBlock E pop s = Inr (r, s')"
  shows "astPtrs s' = [] \<and> constants s' = [] \<and> astNextPtr s' = 0 \<and>
         bytesPtr s' = bytesPtr s \<and> blocks s' = blocks s \<and>
         stackTop s' = (if pop then stackTop s - 1 else stackTop s) \<and>
         nextLabel s' = nextLabel s \<and> (\<exists>t. body s' = body s @ t)"
proof -
  from assms obtain s1 where
    o: "optimizeLoop E (s\<lparr>fbI := int (length (astPtrs s)) - 1\<rparr>) = Inr s1"
    by (auto simp: finalizeBasicBlock_def split: sum.splits)
  from optimizeLoop_frame [OF o] have f: "optFrame s s1"
    by (simp add: optFrame_def)
  from assms o consider
      (emitted) t s2 res entries where "emitUnwrapped (callDepth E) E t s1 = Inr (res, s2)"
        "finishBlock E (Some res) entries (s2\<lparr>stackTop := stackTop s2 - 1\<rparr>) = Inr (r, s')" "pop"
    | (named) res entries where
        "finishBlock E res entries (s1\<lparr>stackTop := stackTop s1 - 1\<rparr>) = Inr (r, s')" "pop"
    | (plain) res entries where "finishBlock E res entries s1 = Inr (r, s')" "\<not> pop"
    by (auto simp: finalizeBasicBlock_def Let_def
        split: sum.splits if_splits list.splits option.splits)
  then show ?thesis
  proof cases
    case emitted
    from emitUnwrapped_frame [OF emitted(1)] finishBlock_props [OF emitted(2)] f emitted(3)
    show ?thesis by (auto simp: emitFrame_def optFrame_def)
  next
    case named
    from finishBlock_props [OF named(1)] f named(2)
    show ?thesis by (auto simp: optFrame_def)
  next
    case plain
    from finishBlock_props [OF plain(1)] f plain(2)
    show ?thesis by (auto simp: optFrame_def)
  qed
qed

subsection \<open>The fields that the node writers keep\<close>

lemma pushWord_fields [simp]:
  "bytesPtr (pushWord w s) = bytesPtr s" "blocks (pushWord w s) = blocks s"
  "stackTop (pushWord w s) = stackTop s" "astPtrs (pushWord w s) = astPtrs s"
  "constants (pushWord w s) = constants s" "nextLabel (pushWord w s) = nextLabel s"
  "body (pushWord w s) = body s" "stackLimit (pushWord w s) = stackLimit s"
  "decls (pushWord w s) = decls s" "astNextPtr (pushWord w s) = Suc (astNextPtr s)"
  by (simp_all add: pushWord_def)

lemma pushPtr_fields [simp]:
  "bytesPtr (pushPtr s) = bytesPtr s" "blocks (pushPtr s) = blocks s"
  "stackTop (pushPtr s) = stackTop s" "astPtrs (pushPtr s) = astPtrs s @ [Some (astNextPtr s)]"
  "constants (pushPtr s) = constants s" "nextLabel (pushPtr s) = nextLabel s"
  "body (pushPtr s) = body s" "stackLimit (pushPtr s) = stackLimit s"
  "decls (pushPtr s) = decls s" "astNextPtr (pushPtr s) = astNextPtr s" "ast (pushPtr s) = ast s"
  by (simp_all add: pushPtr_def)

lemma pushUnary_fields [simp]:
  "bytesPtr (pushUnary op k s) = bytesPtr s" "blocks (pushUnary op k s) = blocks s"
  "stackTop (pushUnary op k s) = stackTop s"
  "astPtrs (pushUnary op k s) = astPtrs s @ [Some (astNextPtr s)]"
  "constants (pushUnary op k s) = constants s" "nextLabel (pushUnary op k s) = nextLabel s"
  "body (pushUnary op k s) = body s" "stackLimit (pushUnary op k s) = stackLimit s"
  "decls (pushUnary op k s) = decls s" "astNextPtr (pushUnary op k s) = astNextPtr s + 2"
  by (simp_all add: pushUnary_def)

lemma foldl_pushWord_fields [simp]:
  "bytesPtr (foldl (\<lambda>t i. pushWord (f i) t) s xs) = bytesPtr s"
  "blocks (foldl (\<lambda>t i. pushWord (f i) t) s xs) = blocks s"
  "stackTop (foldl (\<lambda>t i. pushWord (f i) t) s xs) = stackTop s"
  "astPtrs (foldl (\<lambda>t i. pushWord (f i) t) s xs) = astPtrs s"
  "constants (foldl (\<lambda>t i. pushWord (f i) t) s xs) = constants s"
  "nextLabel (foldl (\<lambda>t i. pushWord (f i) t) s xs) = nextLabel s"
  "body (foldl (\<lambda>t i. pushWord (f i) t) s xs) = body s"
  "stackLimit (foldl (\<lambda>t i. pushWord (f i) t) s xs) = stackLimit s"
  "decls (foldl (\<lambda>t i. pushWord (f i) t) s xs) = decls s"
  "astNextPtr (foldl (\<lambda>t i. pushWord (f i) t) s xs) = astNextPtr s + length xs"
  by (induction xs arbitrary: s; simp)+

lemma pushChildren_fields [simp]:
  "bytesPtr (pushChildren n s) = bytesPtr s" "blocks (pushChildren n s) = blocks s"
  "stackTop (pushChildren n s) = stackTop s" "astPtrs (pushChildren n s) = astPtrs s"
  "constants (pushChildren n s) = constants s" "nextLabel (pushChildren n s) = nextLabel s"
  "body (pushChildren n s) = body s" "stackLimit (pushChildren n s) = stackLimit s"
  "decls (pushChildren n s) = decls s" "astNextPtr (pushChildren n s) = astNextPtr s + n"
  by (simp_all add: pushChildren_def del: upt_Suc)

lemma addBody_fields [simp]:
  "bytesPtr (addBody t s) = bytesPtr s" "blocks (addBody t s) = blocks s"
  "stackTop (addBody t s) = stackTop s" "astPtrs (addBody t s) = astPtrs s"
  "constants (addBody t s) = constants s" "nextLabel (addBody t s) = nextLabel s"
  "body (addBody t s) = body s @ t" "stackLimit (addBody t s) = stackLimit s"
  "decls (addBody t s) = decls s" "astNextPtr (addBody t s) = astNextPtr s" "ast (addBody t s) = ast s"
  by (simp_all add: addBody_def)

lemma setTop_fields [simp]:
  "bytesPtr (setTop f s) = bytesPtr s"
  "stackTop (setTop f s) = stackTop s" "astPtrs (setTop f s) = astPtrs s"
  "constants (setTop f s) = constants s" "nextLabel (setTop f s) = nextLabel s"
  "body (setTop f s) = body s" "stackLimit (setTop f s) = stackLimit s"
  "decls (setTop f s) = decls s" "astNextPtr (setTop f s) = astNextPtr s" "ast (setTop f s) = ast s"
  "length (blocks (setTop f s)) = length (blocks s)"
  by (simp_all add: setTop_def)

lemma readU32LEB_fields:
  assumes "readU32LEB E s = (v, s')"
  shows "bytesPtr s < bytesPtr s'" "blocks s' = blocks s" "stackTop s' = stackTop s"
    "astPtrs s' = astPtrs s" "constants s' = constants s" "nextLabel s' = nextLabel s"
    "body s' = body s" "stackLimit s' = stackLimit s" "decls s' = decls s"
    "astNextPtr s' = astNextPtr s" "ast s' = ast s"
proof -
  have pos: "0 < n" if "leb32 bs v0 sh n0 = (v1, b, sh1, n)" for bs v0 sh n0 v1 b sh1 n
    using that by (induction bs v0 sh n0 rule: leb32.induct) (auto simp: Let_def split: if_splits)
  from assms pos show "bytesPtr s < bytesPtr s'"
    by (auto simp: readU32LEB_def split: prod.splits)
  from assms show "blocks s' = blocks s" "stackTop s' = stackTop s"
    "astPtrs s' = astPtrs s" "constants s' = constants s" "nextLabel s' = nextLabel s"
    "body s' = body s" "stackLimit s' = stackLimit s" "decls s' = decls s"
    "astNextPtr s' = astNextPtr s" "ast s' = ast s"
    by (auto simp: readU32LEB_def split: prod.splits)
qed

subsection \<open>Every instruction consumes at least its opcode\<close>

lemma leb32_consumed: "leb32 bs v0 sh n0 = (v1, b, sh1, n) \<Longrightarrow> 0 < n"
  by (induction bs v0 sh n0 rule: leb32.induct) (auto simp: Let_def split: if_splits)

lemma leb64_consumed: "leb64 bs v0 sh n0 = (v1, b, sh1, n) \<Longrightarrow> 0 < n"
  by (induction bs v0 sh n0 rule: leb64.induct) (auto simp: Let_def split: if_splits)

lemma readU32LEB_snd [simp]:
  "bytesPtr s < bytesPtr (snd (readU32LEB E s))"
  "blocks (snd (readU32LEB E s)) = blocks s" "stackTop (snd (readU32LEB E s)) = stackTop s"
  "astPtrs (snd (readU32LEB E s)) = astPtrs s" "constants (snd (readU32LEB E s)) = constants s"
  "nextLabel (snd (readU32LEB E s)) = nextLabel s" "body (snd (readU32LEB E s)) = body s"
  "stackLimit (snd (readU32LEB E s)) = stackLimit s" "decls (snd (readU32LEB E s)) = decls s"
  "astNextPtr (snd (readU32LEB E s)) = astNextPtr s" "ast (snd (readU32LEB E s)) = ast s"
  by (auto simp: readU32LEB_def split: prod.splits dest: leb32_consumed)

lemma readI32LEB_snd [simp]:
  "bytesPtr s < bytesPtr (snd (readI32LEB E s))"
  "blocks (snd (readI32LEB E s)) = blocks s" "stackTop (snd (readI32LEB E s)) = stackTop s"
  "astPtrs (snd (readI32LEB E s)) = astPtrs s" "constants (snd (readI32LEB E s)) = constants s"
  "nextLabel (snd (readI32LEB E s)) = nextLabel s" "body (snd (readI32LEB E s)) = body s"
  "stackLimit (snd (readI32LEB E s)) = stackLimit s" "decls (snd (readI32LEB E s)) = decls s"
  "astNextPtr (snd (readI32LEB E s)) = astNextPtr s" "ast (snd (readI32LEB E s)) = ast s"
  by (auto simp: readI32LEB_def split: prod.splits dest: leb32_consumed)

lemma readI64LEB_snd [simp]:
  "bytesPtr s < bytesPtr (snd (readI64LEB E s))"
  "blocks (snd (readI64LEB E s)) = blocks s" "stackTop (snd (readI64LEB E s)) = stackTop s"
  "astPtrs (snd (readI64LEB E s)) = astPtrs s" "constants (snd (readI64LEB E s)) = constants s"
  "nextLabel (snd (readI64LEB E s)) = nextLabel s" "body (snd (readI64LEB E s)) = body s"
  "stackLimit (snd (readI64LEB E s)) = stackLimit s" "decls (snd (readI64LEB E s)) = decls s"
  "astNextPtr (snd (readI64LEB E s)) = astNextPtr s" "ast (snd (readI64LEB E s)) = ast s"
  by (auto simp: readI64LEB_def split: prod.splits dest: leb64_consumed)

lemma readBlockType_bytesPtr: "readBlockType E s = Inr (x, s') \<Longrightarrow> bytesPtr s < bytesPtr s'"
  by (auto simp: readBlockType_def case_prod_beta split: option.splits if_splits)

lemma openBlock_fields:
  assumes "openBlock k s = (lb, lc, s')"
  shows "bytesPtr s' = bytesPtr s" "blocks s' = blocks s" "stackTop s' = stackTop s"
    "astPtrs s' = astPtrs s" "constants s' = constants s" "astNextPtr s' = astNextPtr s"
    "ast s' = ast s" "stackLimit s' = stackLimit s" "decls s' = decls s"
  using assms by (auto simp: openBlock_def Let_def addBody_def split: if_splits)

lemma readBlockType_fields:
  assumes "readBlockType E s = Inr (x, s')"
  shows "bytesPtr s < bytesPtr s'" "blocks s' = blocks s" "stackTop s' = stackTop s"
    "astPtrs s' = astPtrs s" "constants s' = constants s" "astNextPtr s' = astNextPtr s"
    "ast s' = ast s" "stackLimit s' = stackLimit s" "decls s' = decls s"
    "nextLabel s' = nextLabel s" "body s' = body s"
  using assms
  by (auto simp: readBlockType_def case_prod_beta split: option.splits if_splits)

lemma pushBlock_bytesPtr: "pushBlock E k s = Inr (l, s') \<Longrightarrow> bytesPtr s < bytesPtr s'"
  by (auto simp: pushBlock_def split: sum.splits prod.splits
      dest!: readBlockType_fields(1) openBlock_fields(1))

lemma jump_bytesPtr: "jump i s = Inr s' \<Longrightarrow> bytesPtr s' = bytesPtr s"
  by (auto simp: jump_def Let_def split: if_splits option.splits)

lemma jumpRel_bytesPtr: "jumpRel E s = Inr s' \<Longrightarrow> bytesPtr s < bytesPtr s'"
  by (auto simp: jumpRel_def case_prod_beta dest!: jump_bytesPtr)

lemma markDead_bytesPtr: "markDead s = Inr s' \<Longrightarrow> bytesPtr s' = bytesPtr s"
  by (auto simp: markDead_def split: if_splits)

lemma brTableCases_bytesPtr: "brTableCases E i n s = Inr s' \<Longrightarrow> bytesPtr s \<le> bytesPtr s'"
proof (induction n arbitrary: i s)
  case 0
  then show ?case by simp
next
  case (Suc n)
  from Suc.prems obtain s1 where a: "jumpRel E (addBody (''case '' @ show_nat i @ '':'') s) = Inr s1"
    and b: "brTableCases E (Suc i) n s1 = Inr s'"
    by (auto split: sum.splits)
  from jumpRel_bytesPtr [OF a] Suc.IH [OF b] show ?case by simp
qed

lemma finalize_bytesPtr: "finalizeBasicBlock E pop s = Inr (r, s') \<Longrightarrow> bytesPtr s' = bytesPtr s"
  by (drule finalizeBasicBlock_props) simp

lemma foldl_pushUnary_bytesPtr [simp]:
  "bytesPtr (foldl (\<lambda>t i. pushUnary op (g t i) t) s xs) = bytesPtr s"
  by (induction xs arbitrary: s) simp_all

lemma pushAnd63_bytesPtr [simp]: "bytesPtr (pushAnd63 s) = bytesPtr s"
  by (simp add: pushAnd63_def Let_def)

lemma foldl_pushUnary_fields [simp]:
  "blocks (foldl (\<lambda>t i. pushUnary op (g i) t) s xs) = blocks s"
  "stackTop (foldl (\<lambda>t i. pushUnary op (g i) t) s xs) = stackTop s"
  "constants (foldl (\<lambda>t i. pushUnary op (g i) t) s xs) = constants s"
  "nextLabel (foldl (\<lambda>t i. pushUnary op (g i) t) s xs) = nextLabel s"
  "body (foldl (\<lambda>t i. pushUnary op (g i) t) s xs) = body s"
  "stackLimit (foldl (\<lambda>t i. pushUnary op (g i) t) s xs) = stackLimit s"
  "decls (foldl (\<lambda>t i. pushUnary op (g i) t) s xs) = decls s"
  by (induction xs arbitrary: s; simp)+

lemma pushAnd63_fields [simp]:
  "blocks (pushAnd63 s) = blocks s" "stackTop (pushAnd63 s) = stackTop s"
  "nextLabel (pushAnd63 s) = nextLabel s" "body (pushAnd63 s) = body s"
  "stackLimit (pushAnd63 s) = stackLimit s" "decls (pushAnd63 s) = decls s"
  by (simp_all add: pushAnd63_def Let_def)

lemma and63Operand_fields [simp]:
  "bytesPtr (and63Operand f s) = bytesPtr s"
  "blocks (and63Operand f s) = blocks s" "stackTop (and63Operand f s) = stackTop s"
  "nextLabel (and63Operand f s) = nextLabel s" "body (and63Operand f s) = body s"
  "stackLimit (and63Operand f s) = stackLimit s" "decls (and63Operand f s) = decls s"
  by (simp_all add: and63Operand_def)

lemma popOperands_fields [simp]:
  "bytesPtr (popOperands n s) = bytesPtr s"
  "blocks (popOperands n s) = blocks s" "stackTop (popOperands n s) = stackTop s - int n"
  "nextLabel (popOperands n s) = nextLabel s" "body (popOperands n s) = body s"
  "stackLimit (popOperands n s) = stackLimit s" "decls (popOperands n s) = decls s"
  "astPtrs (popOperands n s) = astPtrs s" "constants (popOperands n s) = constants s"
  "astNextPtr (popOperands n s) = astNextPtr s" "ast (popOperands n s) = ast s"
  by (simp_all add: popOperands_def)

lemma coerceOperands_fields [simp]:
  "bytesPtr (coerceOperands f n s) = bytesPtr s"
  "blocks (coerceOperands f n s) = blocks s" "stackTop (coerceOperands f n s) = stackTop s"
  "nextLabel (coerceOperands f n s) = nextLabel s" "body (coerceOperands f n s) = body s"
  "stackLimit (coerceOperands f n s) = stackLimit s" "decls (coerceOperands f n s) = decls s"
  "constants (coerceOperands f n s) = constants s"
  by (simp_all add: coerceOperands_def del: upt_Suc)

lemma simpleNode_fields [simp]:
  "bytesPtr s \<le> bytesPtr (simpleNode E op f n s)"
  "blocks (simpleNode E op f n s) = blocks s" "stackTop (simpleNode E op f n s) = stackTop s"
  "nextLabel (simpleNode E op f n s) = nextLabel s" "body (simpleNode E op f n s) = body s"
  "stackLimit (simpleNode E op f n s) = stackLimit s" "decls (simpleNode E op f n s) = decls s"
  "constants (simpleNode E op f n s) = constants s"
  by (simp_all add: simpleNode_def Let_def less_imp_le
      order.trans [OF _ less_imp_le [OF readU32LEB_snd(1)]] del: upt_Suc)

lemma pushResult_fields [simp]:
  "bytesPtr (pushResult f s) = bytesPtr s"
  "blocks (pushResult f s) = blocks s"
  "nextLabel (pushResult f s) = nextLabel s" "body (pushResult f s) = body s"
  "stackLimit (pushResult f s) = stackLimit s" "decls (pushResult f s) = decls s"
  "astPtrs (pushResult f s) = astPtrs s" "constants (pushResult f s) = constants s"
  "astNextPtr (pushResult f s) = astNextPtr s" "ast (pushResult f s) = ast s"
  by (simp_all add: pushResult_def)

lemma boolToInt_fields [simp]:
  "bytesPtr (boolToInt f s) = bytesPtr s"
  "blocks (boolToInt f s) = blocks s" "stackTop (boolToInt f s) = stackTop s"
  "nextLabel (boolToInt f s) = nextLabel s" "body (boolToInt f s) = body s"
  "stackLimit (boolToInt f s) = stackLimit s" "decls (boolToInt f s) = decls s"
  "constants (boolToInt f s) = constants s"
  by (simp_all add: boolToInt_def)

lemma skipImmediates_fields [simp]:
  "bytesPtr s \<le> bytesPtr (skipImmediates E f s)"
  "blocks (skipImmediates E f s) = blocks s" "stackTop (skipImmediates E f s) = stackTop s"
  "nextLabel (skipImmediates E f s) = nextLabel s" "body (skipImmediates E f s) = body s"
  "stackLimit (skipImmediates E f s) = stackLimit s" "decls (skipImmediates E f s) = decls s"
  "constants (skipImmediates E f s) = constants s" "astPtrs (skipImmediates E f s) = astPtrs s"
  "astNextPtr (skipImmediates E f s) = astNextPtr s" "ast (skipImmediates E f s) = ast s"
  by (simp_all add: skipImmediates_def Let_def less_imp_le
      order.trans [OF _ less_imp_le [OF readU32LEB_snd(1)]])

lemma decodeSimple_bytesPtr: "decodeSimple E op flags s = Inr s' \<Longrightarrow> bytesPtr s \<le> bytesPtr s'"
proof -
  assume r: "decodeSimple E op flags s = Inr s'"
  have "bytesPtr (and63Operand flags s) \<le> bytesPtr (simpleNode E op flags (flags AND 3)
          (coerceOperands flags (flags AND 3) (popOperands (flags AND 3) (and63Operand flags s))))"
    by (rule order.trans [OF _ simpleNode_fields(1)]) simp
  with r show ?thesis
    by (auto simp: decodeSimple_def Let_def split: option.splits bool.splits)
qed


lemma pushTernary_fields [simp]:
  "bytesPtr (pushTernary op a b c s) = bytesPtr s"
  "blocks (pushTernary op a b c s) = blocks s" "stackTop (pushTernary op a b c s) = stackTop s - 2"
  "nextLabel (pushTernary op a b c s) = nextLabel s" "body (pushTernary op a b c s) = body s"
  "stackLimit (pushTernary op a b c s) = stackLimit s" "decls (pushTernary op a b c s) = decls s"
  "constants (pushTernary op a b c s) = constants s"
  by (simp_all add: pushTernary_def Let_def)

lemma pushConstHeader_fields [simp]:
  "bytesPtr (pushConstHeader op s) = bytesPtr s"
  "blocks (pushConstHeader op s) = blocks s" "stackTop (pushConstHeader op s) = stackTop s + 1"
  "nextLabel (pushConstHeader op s) = nextLabel s" "body (pushConstHeader op s) = body s"
  "stackLimit (pushConstHeader op s) = stackLimit s" "decls (pushConstHeader op s) = decls s"
  "constants (pushConstHeader op s) = constants s"
  by (simp_all add: pushConstHeader_def Let_def)

lemma pushCallNode_fields [simp]:
  "bytesPtr (pushCallNode op x i a r s) = bytesPtr s"
  "blocks (pushCallNode op x i a r s) = blocks s"
  "stackTop (pushCallNode op x i a r s) = stackTop s - int (a + x) + int r"
  "nextLabel (pushCallNode op x i a r s) = nextLabel s" "body (pushCallNode op x i a r s) = body s"
  "stackLimit (pushCallNode op x i a r s) = stackLimit s" "decls (pushCallNode op x i a r s) = decls s"
  "constants (pushCallNode op x i a r s) = constants s"
  by (simp_all add: pushCallNode_def Let_def)

lemma doUnreachable_bytesPtr: "doUnreachable E s = Inr s' \<Longrightarrow> bytesPtr s \<le> bytesPtr s'"
  by (auto simp: doUnreachable_def split: sum.splits option.splits bool.splits
      dest!: finalize_bytesPtr)

lemma doBlock_bytesPtr: "doBlock E s = Inr s' \<Longrightarrow> bytesPtr s \<le> bytesPtr s'"
  by (auto simp: doBlock_def split: sum.splits if_splits
      dest!: finalize_bytesPtr pushBlock_bytesPtr)

lemma doLoop_bytesPtr: "doLoop E s = Inr s' \<Longrightarrow> bytesPtr s \<le> bytesPtr s'"
  by (auto simp: doLoop_def split: sum.splits if_splits
      dest!: finalize_bytesPtr pushBlock_bytesPtr)

lemma doIf_bytesPtr: "doIf E s = Inr s' \<Longrightarrow> bytesPtr s \<le> bytesPtr s'"
  by (auto simp: doIf_def Let_def split: sum.splits option.splits if_splits
      dest!: finalize_bytesPtr pushBlock_bytesPtr)

lemma doElse_bytesPtr: "doElse E s = Inr s' \<Longrightarrow> bytesPtr s \<le> bytesPtr s'"
  by (auto simp: doElse_def Let_def split: sum.splits
      dest!: finalize_bytesPtr jump_bytesPtr)

lemma doEnd_bytesPtr: "doEnd E s = Inr s' \<Longrightarrow> bytesPtr s \<le> bytesPtr s'"
  by (auto simp: doEnd_def Let_def split: sum.splits if_splits
      dest!: finalize_bytesPtr jump_bytesPtr)

lemma doBr_bytesPtr: "doBr E s = Inr s' \<Longrightarrow> bytesPtr s \<le> bytesPtr s'"
  by (auto simp: doBr_def split: sum.splits
      dest!: finalize_bytesPtr jumpRel_bytesPtr markDead_bytesPtr)

lemma doBrIf_bytesPtr: "doBrIf E s = Inr s' \<Longrightarrow> bytesPtr s \<le> bytesPtr s'"
  by (auto simp: doBrIf_def split: sum.splits option.splits if_splits
      dest!: finalize_bytesPtr jumpRel_bytesPtr)

lemma doBrTable_bytesPtr: "doBrTable E s = Inr s' \<Longrightarrow> bytesPtr s \<le> bytesPtr s'"
proof -
  assume "doBrTable E s = Inr s'"
  then obtain res s1 t s3 s4 where
    a: "finalizeBasicBlock E True s = Inr (res, s1)"
    and b: "brTableCases E 0 (nat (fst (readU32LEB E (addBody t s1))))
              (snd (readU32LEB E (addBody t s1))) = Inr s3"
    and c: "jumpRel E (addBody ''default:'' s3) = Inr s4"
    and d: "markDead (addBody ''}'' s4) = Inr s'"
    by (auto simp: doBrTable_def case_prod_beta split: sum.splits)
  have "bytesPtr (addBody t s1) < bytesPtr (snd (readU32LEB E (addBody t s1)))"
    by (rule readU32LEB_snd(1))
  with finalize_bytesPtr [OF a] brTableCases_bytesPtr [OF b] jumpRel_bytesPtr [OF c]
    markDead_bytesPtr [OF d]
  show ?thesis by simp
qed

lemma doReturn_bytesPtr: "doReturn E s = Inr s' \<Longrightarrow> bytesPtr s \<le> bytesPtr s'"
  by (auto simp: doReturn_def split: sum.splits
      dest!: finalize_bytesPtr jump_bytesPtr markDead_bytesPtr)

lemma doCall_bytesPtr: "doCall E s = Inr s' \<Longrightarrow> bytesPtr s \<le> bytesPtr s'"
  by (auto simp: doCall_def case_prod_beta less_imp_le split: option.splits bool.splits)

lemma doCallIndirect_bytesPtr: "doCallIndirect E s = Inr s' \<Longrightarrow> bytesPtr s \<le> bytesPtr s'"
proof -
  have "bytesPtr s \<le> bytesPtr (snd (readU32LEB E (snd (readU32LEB E s))))"
    by (rule order.trans [OF less_imp_le [OF readU32LEB_snd(1)] less_imp_le [OF readU32LEB_snd(1)]])
  moreover assume "doCallIndirect E s = Inr s'"
  ultimately show ?thesis
    by (auto simp: doCallIndirect_def case_prod_beta split: option.splits bool.splits if_splits)
qed

lemma doSelect_bytesPtr: "doSelect E s = Inr s' \<Longrightarrow> bytesPtr s \<le> bytesPtr s'"
  by (auto simp: doSelect_def split: option.splits bool.splits)

lemma doI32Const_bytesPtr: "doI32Const E s = Inr s' \<Longrightarrow> bytesPtr s \<le> bytesPtr s'"
proof -
  have "bytesPtr (pushConstHeader 65 s) < bytesPtr (snd (readI32LEB E (pushConstHeader 65 s)))"
    by (rule readI32LEB_snd(1))
  moreover assume "doI32Const E s = Inr s'"
  ultimately show ?thesis
    by (auto simp: doI32Const_def case_prod_beta less_imp_le split: option.splits bool.splits)
qed

lemma doI64Const_bytesPtr: "doI64Const E s = Inr s' \<Longrightarrow> bytesPtr s \<le> bytesPtr s'"
proof -
  have "bytesPtr (pushWord w (pushConstHeader 66 s))
        < bytesPtr (snd (readI64LEB E (pushWord w (pushConstHeader 66 s))))" for w
    by (rule readI64LEB_snd(1))
  moreover assume "doI64Const E s = Inr s'"
  ultimately show ?thesis
    by (fastforce simp: doI64Const_def Let_def case_prod_beta less_imp_le
        split: option.splits bool.splits)
qed

lemma doFloatConst_bytesPtr: "doFloatConst op w s = Inr s' \<Longrightarrow> bytesPtr s \<le> bytesPtr s'"
  by (auto simp: doFloatConst_def Let_def split: option.splits)

lemma doPrefixFC_bytesPtr: "doPrefixFC E s = Inr s' \<Longrightarrow> bytesPtr s \<le> bytesPtr s'"
  by (auto simp: doPrefixFC_def Let_def split: option.splits bool.splits if_splits)

lemma step_bytesPtr: "step E s = Inr s' \<Longrightarrow> bytesPtr s < bytesPtr s'"
proof -
  assume r: "step E s = Inr s'"
  let ?s1 = "s\<lparr>bytesPtr := bytesPtr s + 1\<rparr>"
  from r have "bytesPtr ?s1 \<le> bytesPtr s'"
    unfolding step_def Let_def
    by (auto split: option.splits if_splits
        dest: decodeSimple_bytesPtr doUnreachable_bytesPtr doBlock_bytesPtr doLoop_bytesPtr
          doIf_bytesPtr doElse_bytesPtr doEnd_bytesPtr doBr_bytesPtr doBrIf_bytesPtr
          doBrTable_bytesPtr doReturn_bytesPtr doCall_bytesPtr doCallIndirect_bytesPtr
          doSelect_bytesPtr doI32Const_bytesPtr doI64Const_bytesPtr doFloatConst_bytesPtr
          doPrefixFC_bytesPtr)
  then show ?thesis by simp
qed

termination compileLoop
proof (relation "measure (\<lambda>(E, s). codeEnd E - bytesPtr s)")
  show "wf (measure (\<lambda>(E, s). codeEnd E - bytesPtr s))" by simp
next
  fix E :: cenv and s s1 :: cstate
  assume "bytesPtr s < codeEnd E" and "step E s = Inr s1"
  with step_bytesPtr [of E s s1]
  show "((E, s1), E, s) \<in> measure (\<lambda>(E, s). codeEnd E - bytesPtr s)"
    by simp
qed

declare compileLoop.simps [simp del]

subsection \<open>The block stack under one instruction\<close>






subsection \<open>The return arity of block 0\<close>

text \<open>\<^verbatim>\<open>blocks[0].returnCount_\<close>, when there is a block 0.\<close>

definition outerArity :: "cstate \<Rightarrow> nat option" where
  "outerArity s = (case blocks s of [] \<Rightarrow> None | b # bs \<Rightarrow> Some (returnCount b))"










lemma addBody_outerArity [simp]: "outerArity (addBody t s) = outerArity s"
  by (simp add: outerArity_def)





lemma pushUnary_outerArity [simp]: "outerArity (pushUnary op k s) = outerArity s"
  by (simp add: outerArity_def)
















subsection \<open>Instructions in a dead block\<close>

text \<open>
  The node store as \<^verbatim>\<open>finalizeBasicBlock\<close> leaves it: no node, no constant, the bump
  pointer at 0.
\<close>

definition idle :: "cstate \<Rightarrow> bool" where
  "idle s \<longleftrightarrow> astPtrs s = [] \<and> constants s = [] \<and> astNextPtr s = 0"



lemma addBody_idle [simp]: "idle (addBody t s) = idle s"
  by (simp add: idle_def)

lemma setTop_idle [simp]: "idle (setTop f s) = idle s"
  by (simp add: idle_def)




















lemma topIsDead_bytesPtr [simp]: "topIsDead (s\<lparr>bytesPtr := n\<rparr>) = topIsDead s"
  by (simp add: topIsDead_def)

lemma topIsDead_read [simp]:
  "topIsDead (snd (readU32LEB E s)) = topIsDead s"
  "topIsDead (snd (readI32LEB E s)) = topIsDead s"
  "topIsDead (snd (readI64LEB E s)) = topIsDead s"
  by (simp_all add: topIsDead_def)

















subsection \<open>The states of the loop\<close>

text \<open>
  \<open>decodes E s0 s\<close>: the loop \<^verbatim>\<open>while (bytesPtr < codeEnd)\<close>, started in \<open>s0\<close>, is in
  the state \<open>s\<close> at the head of a turn, and until then every turn began with the outer block
  still open.
\<close>

inductive decodes :: "cenv \<Rightarrow> cstate \<Rightarrow> cstate \<Rightarrow> bool" for E s0 where
  decodes_start: "decodes E s0 s0"
| decodes_step:
    "decodes E s0 s \<Longrightarrow> bytesPtr s < codeEnd E \<Longrightarrow> blocks s \<noteq> [] \<Longrightarrow> step E s = Inr s' \<Longrightarrow>
     decodes E s0 s'"




lemma finalizeBasicBlock_idle:
  assumes "astPtrs s = []"
  shows "finalizeBasicBlock E True s =
           Inr (Some (slotVar (stackTop s)),
                s\<lparr>fbI := - 1, stackTop := stackTop s - 1, constants := [],
                  astPtrs := [], astNextPtr := 0\<rparr>)"
    "finalizeBasicBlock E False s =
           Inr (None,
                s\<lparr>fbI := - 1, constants := [], astPtrs := [], astNextPtr := 0\<rparr>)"
  using assms
  by (simp_all add: finalizeBasicBlock_def finishBlock_def optimizeLoop.simps)



section \<open>Unfolding the recursive functions at given arguments\<close>

lemma show_nat_digit: "n < 10 \<Longrightarrow> show_nat n = [''0123456789'' ! n]"
  by (simp add: show_nat.simps)

lemma show_nat_more:
  "\<not> n < 10 \<Longrightarrow> show_nat n = show_nat (n div 10) @ [''0123456789'' ! (n mod 10)]"
  by (subst show_nat.simps) simp

lemma optimizeChildrenAndSelf_pos:
  "0 < d \<Longrightarrow> optimizeChildrenAndSelf d E ptr s =
     optimizeBody (optimizeChildrenAndSelf (d - 1) E) E ptr s"
  by (cases d) simp_all

lemma emitUnwrapped_pos:
  "0 < d \<Longrightarrow> emitUnwrapped d E ptr s = emitNode (emitVia (emitUnwrapped (d - 1) E)) E ptr s"
  by (cases d) simp_all

lemma scanLoop_pos:
  assumes "0 < n"
  shows "scanLoop self ptr j usesTA stackSlot didSkip n s =
     (case astPtrs s ! (n - 1) of
        None \<Rightarrow> scanLoop self ptr j usesTA stackSlot didSkip (n - 1) s
      | Some prevPtr \<Rightarrow>
          (let prevNode = ast s prevPtr; prevOp = nodeOp prevNode in
           if usesTA \<and> (prevOp < Op_i32_const \<or> prevOp > Op_i64_const) \<and> prevOp \<noteq> Op_local_get
           then Inr s
           else if nodeOutSlot prevNode = stackSlot then
             (case self prevPtr (s\<lparr>astPtrs := (astPtrs s)[n - 1 := None],
                                   fbI := (if didSkip then fbI s else int (n - 1) - 1)\<rparr>) of
                Inl e \<Rightarrow> Inl e
              | Inr (r, s1) \<Rightarrow> Inr (s1\<lparr>ast := astStore (ptr + j + 1) (int r) (ast s1)\<rparr>))
           else if prevOp \<noteq> Op_TO_U32 \<and> prevOp \<noteq> Op_TO_S64 then Inr s
           else scanLoop self ptr j usesTA stackSlot True (n - 1) s))"
proof -
  from assms obtain k where n: "n = Suc k" by (cases n) auto
  show ?thesis unfolding n diff_Suc_1 by (rule scanLoop.simps(2))
qed

lemma childLoop_pos:
  assumes "0 < n"
  shows "childLoop self ptr usesTA n s =
     (if fbI s < 0 then Inr s
      else case scanLoop self ptr (n - 1) usesTA (- ast s (ptr + (n - 1) + 1)) False
                  (nat (fbI s + 1)) s of
             Inl e \<Rightarrow> Inl e
           | Inr s1 \<Rightarrow> childLoop self ptr usesTA (n - 1) s1)"
proof -
  from assms obtain k where n: "n = Suc k" by (cases n) auto
  show ?thesis unfolding n diff_Suc_1 by (rule childLoop.simps(2))
qed

text \<open>The definitions that an evaluation of the decoder unfolds.\<close>

lemmas js_defs = toInt32_def js_or_def js_and_def js_shl_def js_shr_def js_ushr_def

lemmas node_defs = astStore_def nodeOp_def nodeChildCount_def nodeOutSlot_def pushWord_def pushPtr_def
  pushUnary_def pushChildren_def

lemmas demo_defs = demoFields_def demoWasm_def demoEnv_def demoStart_def compileEnv_def
  initialState_def

lemmas simple_defs = decodeSimple_def topIsDead_def and63Operand_def popOperands_def
  coerceOperands_def simpleNode_def pushResult_def boolToInt_def skipImmediates_def
  pushAnd63_def metaTable_def metaEntries_def hasFlag_def readU32LEB_def

lemmas finalize_defs = finalizeBasicBlock_def finishBlock_def optimizeLoop.simps
  optimizeChildrenAndSelf_pos optimizeBody_def usesTypedArrays_def applyOptimizer_def
  keepNode_def scanLoop_pos childLoop_pos

lemmas emit_defs = emitUnwrapped_pos emitNode_def emitVia_def emitPiece_def shapeOf_def
  shapes_def call1_def call2_def binary_def unary_def load_def load8_def store_def store8_def
  mask64_def stackSlotName_def slotVar_def show_int_def show_nat_digit show_nat_more

section \<open>The claims\<close>

subsection \<open>C6: a jump to block 0 returns from the function\<close>























subsection \<open>C7: what finalizeBasicBlock leaves behind\<close>

lemma oneNode_decoded:
  "step (demoEnv [0x20, 0, 0x0B] [([I32], [I32])]) (demoStart [([I32], [I32])]) = Inr oneNode"
  by (simp add: oneNode_def demo_defs step_def at_def simple_defs node_defs js_defs Let_def)

lemma oneNode_finalized:
  "\<exists>s'. finalizeBasicBlock (demoEnv [0x20, 0, 0x0B] [([I32], [I32])]) True oneNode
          = Inr (Some ''a0'', s')"
  by (simp add: oneNode_def demo_defs finalize_defs emit_defs node_defs js_defs at_def Let_def)

text \<open>
  C7. After every call of \<^verbatim>\<open>finalizeBasicBlock\<close> that returns, with either value of
  \<^verbatim>\<open>popStackTop\<close>, the bump pointer \<^verbatim>\<open>astNextPtr\<close> is 0, the node list
  \<^verbatim>\<open>astPtrs\<close> is empty and the list of 64-bit constants is empty.
\<close>

theorem finalizeBasicBlock_resets:
  "finalizeBasicBlock E popStackTop s = Inr (res, s') \<Longrightarrow>
     astNextPtr s' = 0 \<and> astPtrs s' = [] \<and> constants s' = []"
  by (drule finalizeBasicBlock_props) simp

theorem finalizeBasicBlock_resets_witness:
  "\<exists>s'. finalizeBasicBlock (demoEnv [0x20, 0, 0x0B] [([I32], [I32])]) True oneNode
          = Inr (Some ''a0'', s')
        \<and> astNextPtr s' = 0 \<and> astPtrs s' = [] \<and> constants s' = []"
  using oneNode_finalized finalizeBasicBlock_resets by blast

subsection \<open>C10: finalizeBasicBlock(true) pops the stack\<close>

lemma afterGet_decoded: "step (demoEnv getGetSet twoTypes) (demoStart twoTypes) = Inr afterGet"
  by (simp add: afterGet_def getGetSet_def twoTypes_def demo_defs step_def at_def simple_defs
      node_defs js_defs Let_def)

lemma afterGetGet_decoded: "step (demoEnv getGetSet twoTypes) afterGet = Inr afterGetGet"
  by (simp add: afterGet_def afterGetGet_def getGetSet_def twoTypes_def demo_defs step_def at_def
      simple_defs node_defs js_defs Let_def)

lemma afterGetGetSet_decoded: "step (demoEnv getGetSet twoTypes) afterGetGet = Inr afterGetGetSet"
  by (simp add: afterGetGet_def afterGetGetSet_def getGetSet_def twoTypes_def demo_defs step_def
      at_def simple_defs node_defs js_defs Let_def)

lemma afterGetGetSet_reached:
  "decodes (demoEnv getGetSet twoTypes) (demoStart twoTypes) afterGetGetSet"
proof -
  have 0: "bytesPtr (demoStart twoTypes) < codeEnd (demoEnv getGetSet twoTypes)"
    "blocks (demoStart twoTypes) \<noteq> []"
    by (simp_all add: getGetSet_def twoTypes_def demo_defs)
  have 1: "bytesPtr afterGet < codeEnd (demoEnv getGetSet twoTypes)" "blocks afterGet \<noteq> []"
    by (simp_all add: afterGet_def getGetSet_def twoTypes_def demo_defs)
  have 2: "bytesPtr afterGetGet < codeEnd (demoEnv getGetSet twoTypes)" "blocks afterGetGet \<noteq> []"
    by (simp_all add: afterGetGet_def getGetSet_def twoTypes_def demo_defs)
  note decodes_step [OF decodes_start 0 afterGet_decoded]
  note decodes_step [OF this 1 afterGetGet_decoded]
  from decodes_step [OF this 2 afterGetGetSet_decoded] show ?thesis .
qed

lemma afterGetGetSet_finalized:
  "\<exists>s'. finalizeBasicBlock (demoEnv getGetSet twoTypes) True afterGetGetSet = Inr (Some ''s1'', s') \<and>
         body s' = ''b0:{s1=a0;a0=(a1);'' \<and> stackTop s' = 0"
  by (simp add: afterGetGetSet_def getGetSet_def twoTypes_def demo_defs finalize_defs emit_defs
      node_defs js_defs at_def Let_def emitParts.simps upt_conv_Cons)


lemma finishBlock_body:
  assumes "finishBlock E res entries s = Inr (r, s')"
  shows "\<exists>parts s3. emitParts E entries s = Inr (parts, s3) \<and> r = res \<and>
           body s' = body s @ concat (rev parts)"
proof -
  from assms obtain parts s3 where e: "emitParts E entries s = Inr (parts, s3)"
    and r: "r = res" and b: "body s' = body s3 @ concat (rev parts)"
    by (auto simp: finishBlock_def split: sum.splits)
  from emitParts_frame [OF e] have "body s3 = body s"
    by (simp add: emitFrame_def)
  with e r b show ?thesis by simp
qed

lemma finalizeBasicBlock_pop_body:
  assumes fin: "finalizeBasicBlock E True s = Inr (res, s')"
  shows "\<exists>s1. optimizeLoop E (s\<lparr>fbI := int (length (astPtrs s)) - 1\<rparr>) = Inr s1 \<and>
           (case rev (astPtrs s1) of
              Some ptr # rest \<Rightarrow>
                if nodeOutSlot (ast s1 ptr) = stackTop s
                then \<exists>t s2 parts s3.
                       emitUnwrapped (callDepth E) E ptr s1 = Inr (t, s2) \<and> res = Some t \<and>
                       emitParts E rest (s2\<lparr>stackTop := stackTop s - 1\<rparr>) = Inr (parts, s3) \<and>
                       body s' = body s @ concat (rev parts)
                else \<exists>parts s3.
                       res = Some (slotVar (stackTop s)) \<and>
                       emitParts E (rev (astPtrs s1)) (s1\<lparr>stackTop := stackTop s - 1\<rparr>)
                         = Inr (parts, s3) \<and>
                       body s' = body s @ concat (rev parts)
            | _ \<Rightarrow>
                \<exists>parts s3.
                  res = Some (slotVar (stackTop s)) \<and>
                  emitParts E (rev (astPtrs s1)) (s1\<lparr>stackTop := stackTop s - 1\<rparr>)
                    = Inr (parts, s3) \<and>
                  body s' = body s @ concat (rev parts))"
proof -
  from fin obtain s1 where
    o: "optimizeLoop E (s\<lparr>fbI := int (length (astPtrs s)) - 1\<rparr>) = Inr s1"
    by (auto simp: finalizeBasicBlock_def split: sum.splits)
  from optimizeLoop_frame [OF o] have f: "stackTop s1 = stackTop s" "body s1 = body s"
    by (simp_all add: optFrame_def)
  have named: "\<exists>parts s3.
                  res = Some (slotVar (stackTop s)) \<and>
                  emitParts E (rev (astPtrs s1)) (s1\<lparr>stackTop := stackTop s - 1\<rparr>)
                    = Inr (parts, s3) \<and>
                  body s' = body s @ concat (rev parts)"
    if "finishBlock E (Some (slotVar (stackTop s1))) (rev (astPtrs s1))
          (s1\<lparr>stackTop := stackTop s1 - 1\<rparr>) = Inr (res, s')"
    using finishBlock_body [OF that] f by auto
  show ?thesis
  proof (cases "rev (astPtrs s1)")
    case Nil
    with fin o have "finishBlock E (Some (slotVar (stackTop s1))) (rev (astPtrs s1))
          (s1\<lparr>stackTop := stackTop s1 - 1\<rparr>) = Inr (res, s')"
      by (simp add: finalizeBasicBlock_def)
    from named [OF this] o Nil show ?thesis by simp
  next
    case (Cons e rest)
    show ?thesis
    proof (cases e)
      case None
      with Cons fin o have "finishBlock E (Some (slotVar (stackTop s1))) (rev (astPtrs s1))
          (s1\<lparr>stackTop := stackTop s1 - 1\<rparr>) = Inr (res, s')"
        by (simp add: finalizeBasicBlock_def)
      from named [OF this] o Cons None show ?thesis by simp
    next
      case (Some ptr)
      show ?thesis
      proof (cases "nodeOutSlot (ast s1 ptr) = stackTop s")
        case False
        with Some Cons fin o f have "finishBlock E (Some (slotVar (stackTop s1))) (rev (astPtrs s1))
          (s1\<lparr>stackTop := stackTop s1 - 1\<rparr>) = Inr (res, s')"
          by (simp add: finalizeBasicBlock_def)
        from named [OF this] o Cons Some False show ?thesis by simp
      next
        case True
        with Some Cons fin o f obtain t s2 where
          e: "emitUnwrapped (callDepth E) E ptr s1 = Inr (t, s2)"
          and b: "finishBlock E (Some t) rest (s2\<lparr>stackTop := stackTop s2 - 1\<rparr>) = Inr (res, s')"
          by (auto simp: finalizeBasicBlock_def split: sum.splits)
        from emitUnwrapped_frame [OF e] f have g: "stackTop s2 = stackTop s" "body s2 = body s"
          by (simp_all add: emitFrame_def)
        from finishBlock_body [OF b] g obtain parts s3 where
          "emitParts E rest (s2\<lparr>stackTop := stackTop s - 1\<rparr>) = Inr (parts, s3)"
          "res = Some t" "body s' = body s @ concat (rev parts)"
          by auto
        with e o Cons Some True show ?thesis by simp
      qed
    qed
  qed
qed

text \<open>
  The claim as it stands fails where a live node with the output slot \<^verbatim>\<open>stackTop\<close> is
  not the last entry of the node list. After \<^verbatim>\<open>local.get 0; local.get 1; local.set 0\<close>
  the node of \<^verbatim>\<open>local.get 0\<close> is live, with output slot 1, and \<^verbatim>\<open>stackTop\<close> is 1; the
  last entry is the node of \<^verbatim>\<open>local.set 0\<close>. Then \<^verbatim>\<open>finalizeBasicBlock(true)\<close> returns
  the slot name \<^verbatim>\<open>s1\<close> and assigns the node, \<^verbatim>\<open>s1=a0;\<close>: its expression is not returned.
\<close>

theorem finalizeBasicBlock_pops_counterexample:
  "decodes (demoEnv getGetSet twoTypes) (demoStart twoTypes) afterGetGetSet \<and>
   astPtrs afterGetGetSet = [Some 0, Some 2, Some 4] \<and> stackTop afterGetGetSet = 1 \<and>
   nodeOutSlot (ast afterGetGetSet 0) = stackTop afterGetGetSet \<and>
   (\<exists>s'. finalizeBasicBlock (demoEnv getGetSet twoTypes) True afterGetGetSet
           = Inr (Some ''s1'', s') \<and>
         body afterGetGetSet = ''b0:{'' \<and> body s' = ''b0:{s1=a0;a0=(a1);'' \<and> stackTop s' = 0)"
proof -
  have "astPtrs afterGetGetSet = [Some 0, Some 2, Some 4]" "stackTop afterGetGetSet = 1"
    "nodeOutSlot (ast afterGetGetSet 0) = stackTop afterGetGetSet"
    "body afterGetGetSet = ''b0:{''"
    by (simp_all add: afterGetGetSet_def twoTypes_def demo_defs node_defs js_defs)
  with afterGetGetSet_reached afterGetGetSet_finalized show ?thesis
    by simp
qed

text \<open>
  C10, amended. A call \<^verbatim>\<open>finalizeBasicBlock(true)\<close> that returns has lowered
  \<^verbatim>\<open>stackTop\<close> by exactly one, whatever the node list held. When, after the optimizer has
  run, the last entry of the node list is a live node whose output slot is \<^verbatim>\<open>stackTop\<close>,
  the result is that node's expression and the statements written to the body are those of
  the entries before it: the node is not assigned. In every other case, also when a live
  node with that output slot stands further down the list, the result is the name of the
  stack slot and the statements of all the entries are written. With no nodes at all, as in
  a dead block, the call returns, the result is the slot's name and nothing is written.
\<close>

theorem finalizeBasicBlock_pops:
  "(finalizeBasicBlock E True s = Inr (res, s') \<longrightarrow>
      stackTop s' = stackTop s - 1 \<and>
      (\<exists>s1. optimizeLoop E (s\<lparr>fbI := int (length (astPtrs s)) - 1\<rparr>) = Inr s1 \<and>
         (case rev (astPtrs s1) of
            Some ptr # rest \<Rightarrow>
              if nodeOutSlot (ast s1 ptr) = stackTop s
              then \<exists>t s2 parts s3.
                     emitUnwrapped (callDepth E) E ptr s1 = Inr (t, s2) \<and> res = Some t \<and>
                     emitParts E rest (s2\<lparr>stackTop := stackTop s - 1\<rparr>) = Inr (parts, s3) \<and>
                     body s' = body s @ concat (rev parts)
              else \<exists>parts s3.
                     res = Some (slotVar (stackTop s)) \<and>
                     emitParts E (rev (astPtrs s1)) (s1\<lparr>stackTop := stackTop s - 1\<rparr>)
                       = Inr (parts, s3) \<and>
                     body s' = body s @ concat (rev parts)
          | _ \<Rightarrow>
              \<exists>parts s3.
                res = Some (slotVar (stackTop s)) \<and>
                emitParts E (rev (astPtrs s1)) (s1\<lparr>stackTop := stackTop s - 1\<rparr>)
                  = Inr (parts, s3) \<and>
                body s' = body s @ concat (rev parts)))) \<and>
   (astPtrs s = [] \<longrightarrow>
      (\<exists>s'. finalizeBasicBlock E True s = Inr (Some (slotVar (stackTop s)), s') \<and>
            stackTop s' = stackTop s - 1 \<and> body s' = body s))"
proof (rule conjI; rule impI)
  assume fin: "finalizeBasicBlock E True s = Inr (res, s')"
  from finalizeBasicBlock_props [OF fin] have top: "stackTop s' = stackTop s - 1" by simp
  from top finalizeBasicBlock_pop_body [OF fin]
  show "stackTop s' = stackTop s - 1 \<and>
      (\<exists>s1. optimizeLoop E (s\<lparr>fbI := int (length (astPtrs s)) - 1\<rparr>) = Inr s1 \<and>
         (case rev (astPtrs s1) of
            Some ptr # rest \<Rightarrow>
              if nodeOutSlot (ast s1 ptr) = stackTop s
              then \<exists>t s2 parts s3.
                     emitUnwrapped (callDepth E) E ptr s1 = Inr (t, s2) \<and> res = Some t \<and>
                     emitParts E rest (s2\<lparr>stackTop := stackTop s - 1\<rparr>) = Inr (parts, s3) \<and>
                     body s' = body s @ concat (rev parts)
              else \<exists>parts s3.
                     res = Some (slotVar (stackTop s)) \<and>
                     emitParts E (rev (astPtrs s1)) (s1\<lparr>stackTop := stackTop s - 1\<rparr>)
                       = Inr (parts, s3) \<and>
                     body s' = body s @ concat (rev parts)
          | _ \<Rightarrow>
              \<exists>parts s3.
                res = Some (slotVar (stackTop s)) \<and>
                emitParts E (rev (astPtrs s1)) (s1\<lparr>stackTop := stackTop s - 1\<rparr>)
                  = Inr (parts, s3) \<and>
                body s' = body s @ concat (rev parts)))"
    by (rule conjI)
next
  assume "astPtrs s = []"
  from finalizeBasicBlock_idle(1) [OF this, of E]
  show "\<exists>s'. finalizeBasicBlock E True s = Inr (Some (slotVar (stackTop s)), s') \<and>
            stackTop s' = stackTop s - 1 \<and> body s' = body s"
    by simp
qed


lemma oneNode_optimized:
  "optimizeLoop (demoEnv [0x20, 0, 0x0B] [([I32], [I32])])
     (oneNode\<lparr>fbI := int (length (astPtrs oneNode)) - 1\<rparr>) = Inr (oneNode\<lparr>fbI := - 1\<rparr>)"
  by (simp add: oneNode_def demo_defs finalize_defs node_defs js_defs at_def Let_def)

lemma oneNode_emitted:
  "emitUnwrapped (callDepth (demoEnv [0x20, 0, 0x0B] [([I32], [I32])]))
     (demoEnv [0x20, 0, 0x0B] [([I32], [I32])]) 0 (oneNode\<lparr>fbI := - 1\<rparr>)
   = Inr (''a0'', oneNode\<lparr>fbI := - 1\<rparr>)"
  by (simp add: oneNode_def demo_defs emit_defs node_defs js_defs at_def Let_def)

lemma afterGetGetSet_optimized:
  "optimizeLoop (demoEnv getGetSet twoTypes)
     (afterGetGetSet\<lparr>fbI := int (length (astPtrs afterGetGetSet)) - 1\<rparr>)
   = Inr (afterGetGetSet\<lparr>ast := (ast afterGetGetSet)(5 := 2),
                          astPtrs := [Some 0, None, Some 4], fbI := - 1\<rparr>)"
  by (simp add: afterGetGetSet_def getGetSet_def twoTypes_def demo_defs finalize_defs
      node_defs js_defs at_def Let_def)

lemma afterGetGetSet_emitted:
  "\<exists>s3. emitParts (demoEnv getGetSet twoTypes) [Some 4, None, Some 0]
           (afterGetGetSet\<lparr>ast := (ast afterGetGetSet)(5 := 2),
                            astPtrs := [Some 0, None, Some 4], fbI := - 1, stackTop := 0\<rparr>)
         = Inr ([''a0=(a1);'', ''s1=a0;''], s3)"
  by (simp add: afterGetGetSet_def getGetSet_def twoTypes_def demo_defs emit_defs
      node_defs js_defs at_def Let_def upt_conv_Cons)

theorem finalizeBasicBlock_pops_witness:
  "(\<exists>s'. finalizeBasicBlock (demoEnv [0x20, 0, 0x0B] [([I32], [I32])]) True oneNode
           = Inr (Some ''a0'', s') \<and>
         stackTop oneNode = 1 \<and> stackTop s' = 0 \<and> body s' = body oneNode) \<and>
   (\<exists>s'. finalizeBasicBlock (demoEnv getGetSet twoTypes) True afterGetGetSet
           = Inr (Some ''s1'', s') \<and>
         stackTop afterGetGetSet = 1 \<and> stackTop s' = 0 \<and>
         body s' = body afterGetGetSet @ ''s1=a0;a0=(a1);'') \<and>
   (\<exists>s'. finalizeBasicBlock (demoEnv [0x00, 0x0D, 0x00, 0x0B] [([], [])]) True deadStart
           = Inr (Some ''s0'', s') \<and> astPtrs deadStart = [] \<and> stackTop deadStart = 0 \<and>
           stackTop s' = - 1 \<and> body s' = body deadStart)"
proof -
  have one: "stackTop oneNode = 1" "astPtrs (oneNode\<lparr>fbI := - 1\<rparr>) = [Some 0]"
    "nodeOutSlot (ast (oneNode\<lparr>fbI := - 1\<rparr>) 0) = 1"
    by (simp_all add: oneNode_def node_defs js_defs)
  have two: "stackTop afterGetGetSet = 1" "nodeOutSlot (((ast afterGetGetSet)(5 := 2)) 4) = 0"
    "slotVar 1 = ''s1''"
    by (simp_all add: afterGetGetSet_def node_defs js_defs slotVar_def show_int_def show_nat_digit)
  have dead: "astPtrs deadStart = []" "stackTop deadStart = 0"
    "slotVar (stackTop deadStart) = ''s0''"
    by (simp_all add: deadStart_def demo_defs setTop_def slotVar_def show_int_def show_nat_digit)
  from oneNode_finalized obtain s1 where
    f1: "finalizeBasicBlock (demoEnv [0x20, 0, 0x0B] [([I32], [I32])]) True oneNode
          = Inr (Some ''a0'', s1)" ..
  from finalizeBasicBlock_pops [of "demoEnv [0x20, 0, 0x0B] [([I32], [I32])]" oneNode
      "Some ''a0''" s1] f1 one
  have a: "\<exists>s'. finalizeBasicBlock (demoEnv [0x20, 0, 0x0B] [([I32], [I32])]) True oneNode
           = Inr (Some ''a0'', s') \<and>
         stackTop oneNode = 1 \<and> stackTop s' = 0 \<and> body s' = body oneNode"
    by (auto simp: oneNode_optimized oneNode_emitted)
  from afterGetGetSet_finalized obtain s2 where
    f2: "finalizeBasicBlock (demoEnv getGetSet twoTypes) True afterGetGetSet
          = Inr (Some ''s1'', s2)" by blast
  from afterGetGetSet_emitted obtain s3 where
    e: "emitParts (demoEnv getGetSet twoTypes) [Some 4, None, Some 0]
           (afterGetGetSet\<lparr>ast := (ast afterGetGetSet)(5 := 2),
                            astPtrs := [Some 0, None, Some 4], fbI := - 1, stackTop := 0\<rparr>)
         = Inr ([''a0=(a1);'', ''s1=a0;''], s3)" ..
  from finalizeBasicBlock_pops [of "demoEnv getGetSet twoTypes" afterGetGetSet "Some ''s1''" s2]
    f2 two e
  have b: "\<exists>s'. finalizeBasicBlock (demoEnv getGetSet twoTypes) True afterGetGetSet
           = Inr (Some ''s1'', s') \<and>
         stackTop afterGetGetSet = 1 \<and> stackTop s' = 0 \<and>
         body s' = body afterGetGetSet @ ''s1=a0;a0=(a1);''"
    by (auto simp: afterGetGetSet_optimized)
  from finalizeBasicBlock_pops [of "demoEnv [0x00, 0x0D, 0x00, 0x0B] [([], [])]" deadStart] dead
  have c: "\<exists>s'. finalizeBasicBlock (demoEnv [0x00, 0x0D, 0x00, 0x0B] [([], [])]) True deadStart
           = Inr (Some ''s0'', s') \<and> astPtrs deadStart = [] \<and> stackTop deadStart = 0 \<and>
           stackTop s' = - 1 \<and> body s' = body deadStart"
    by auto
  from a b c show ?thesis by (intro conjI)
qed

end
